theory Spec2Isabelle
  imports Main
begin

section \<open>Python values used by the file engine\<close>

text \<open>
  Byte strings are lists of 8-bit characters. Python integers are unbounded, so offsets,
  lengths, sizes and versions are \<open>int\<close>; \<open>len\<close> is \<open>int (length xs)\<close>.
\<close>

type_synonym bytes = string

definition len :: "'a list \<Rightarrow> int" where
  "len xs = int (length xs)"

text \<open>
  A slice bound of Python: a negative bound counts from the end, and every bound is clamped
  to the sequence. \<open>xs[i:]\<close>, \<open>xs[:j]\<close> and \<open>xs[i:j]\<close> follow.
\<close>

definition slice_bound :: "int \<Rightarrow> nat \<Rightarrow> nat" where
  "slice_bound i n = (if i < 0 then nat (max 0 (int n + i)) else min (nat i) n)"

definition slice_from :: "'a list \<Rightarrow> int \<Rightarrow> 'a list" where
  "slice_from xs i = drop (slice_bound i (length xs)) xs"

definition slice_to :: "'a list \<Rightarrow> int \<Rightarrow> 'a list" where
  "slice_to xs j = take (slice_bound j (length xs)) xs"

definition slice :: "'a list \<Rightarrow> int \<Rightarrow> int \<Rightarrow> 'a list" where
  "slice xs i j =
     (let a = slice_bound i (length xs); b = slice_bound j (length xs)
      in take (b - a) (drop a xs))"

text \<open>
  A Python dict keeps its keys in insertion order: assigning to a key that is present
  replaces the value where it stands, assigning to a new key appends, \<open>del\<close> removes.
\<close>

type_synonym ('k, 'v) dict = "('k \<times> 'v) list"

fun dict_set :: "('k, 'v) dict \<Rightarrow> 'k \<Rightarrow> 'v \<Rightarrow> ('k, 'v) dict" where
  "dict_set [] k v = [(k, v)]"
| "dict_set ((k', v') # d) k v =
     (if k' = k then (k, v) # d else (k', v') # dict_set d k v)"

definition dict_del :: "('k, 'v) dict \<Rightarrow> 'k \<Rightarrow> ('k, 'v) dict" where
  "dict_del d k = filter (\<lambda>(k', v). k' \<noteq> k) d"

definition dict_keys :: "('k, 'v) dict \<Rightarrow> 'k list" where
  "dict_keys d = map fst d"

section \<open>ContentBuilder\<close>

text \<open>
  \<open>ContentBuilder.contents\<close> maps an offset to the bytes written there.

  \<open>write\<close> walks the regions once. The loop carries \<open>offset\<close>, \<open>new_data\<close> and
  \<open>offsets_to_delete\<close>; \<open>end_offset\<close> and \<open>data\<close> are fixed before the loop, and the
  dict is only changed after it.
\<close>

type_synonym contents = "(int, bytes) dict"

record write_loop =
  wl_offset :: int
  wl_new_data :: bytes
  wl_offsets_to_delete :: "int list"

definition write_step :: "bytes \<Rightarrow> int \<Rightarrow> write_loop \<Rightarrow> int \<times> bytes \<Rightarrow> write_loop" where
  "write_step data end_offset st entry =
     (let current_offset = fst entry; current_content = snd entry; offset = wl_offset st
      in if offset \<ge> current_offset \<and> end_offset \<le> current_offset + len current_content then
           st\<lparr>wl_new_data :=
                 slice_to current_content (offset - current_offset) @ data @
                 slice_from current_content (offset - current_offset + len data),
              wl_offset := current_offset\<rparr>
         else if offset \<le> current_offset \<and> end_offset \<ge> current_offset then
           st\<lparr>wl_new_data :=
                 data @ slice_from current_content (offset + len data - current_offset),
              wl_offsets_to_delete := wl_offsets_to_delete st @ [current_offset]\<rparr>
         else if offset = current_offset + len current_content then
           st\<lparr>wl_new_data := slice_to current_content offset @ wl_new_data st,
              wl_offset := current_offset\<rparr>
         else st)"

definition cb_write :: "contents \<Rightarrow> bytes \<Rightarrow> int \<Rightarrow> contents" where
  "cb_write c data offset =
     (let end_offset = offset + len data;
          st = foldl (write_step data end_offset)
                 \<lparr>wl_offset = offset, wl_new_data = data, wl_offsets_to_delete = []\<rparr> c;
          c' = foldl dict_del c (wl_offsets_to_delete st)
      in dict_set c' (wl_offset st) (wl_new_data st))"

text \<open>
  \<open>truncate\<close> walks the keys, trims in place every region that reaches beyond \<open>length\<close>
  and deletes afterwards the regions that start after it.
\<close>

definition truncate_step :: "int \<Rightarrow> contents \<times> int list \<Rightarrow> int \<Rightarrow> contents \<times> int list" where
  "truncate_step length' st current_offset =
     (let c = fst st; offsets_to_delete = snd st
      in if current_offset > length' then (c, offsets_to_delete @ [current_offset])
         else case map_of c current_offset of
                None \<Rightarrow> st
              | Some content \<Rightarrow>
                  if current_offset + len content > length'
                  then (dict_set c current_offset (slice_to content (length' - current_offset)),
                        offsets_to_delete)
                  else st)"

definition cb_truncate :: "contents \<Rightarrow> int \<Rightarrow> contents" where
  "cb_truncate c length' =
     (let st = foldl (truncate_step length') (c, []) (dict_keys c)
      in foldl dict_del (fst st) (snd st))"

datatype modification = Write bytes int | Truncate int

fun cb_apply :: "contents \<Rightarrow> modification \<Rightarrow> contents" where
  "cb_apply c (Write data offset) = cb_write c data offset"
| "cb_apply c (Truncate length') = cb_truncate c length'"

text \<open>The invariant the builder is meant to keep: two regions never share a byte position.\<close>

definition no_overlap :: "contents \<Rightarrow> bool" where
  "no_overlap c =
     list_all (\<lambda>(o1, c1). list_all (\<lambda>(o2, c2). if o1 < o2 then o1 + len c1 \<le> o2 else True) c) c"

section \<open>Symmetric keys: \<open>parsec.crypto.AESKey\<close>\<close>

text \<open>
  \<open>AESKey\<close> drives the AES-GCM cipher of OpenSSL through the \<open>cryptography\<close> package.
  The cipher is not part of the repository, so the methods are modelled over any cipher
  \<open>G\<close>: \<open>gcm_encrypt G key iv cleartext\<close> stands for
  \<open>encryptor.update(cleartext) + encryptor.finalize()\<close> together with \<open>encryptor.tag\<close>, and
  \<open>gcm_decrypt G key iv tag data\<close> for \<open>cipher.update(data) + cipher.finalize()\<close>, which
  raises \<open>InvalidTag\<close> (here \<open>None\<close>) when the tag does not verify.
\<close>

record gcm =
  gcm_encrypt :: "bytes \<Rightarrow> bytes \<Rightarrow> bytes \<Rightarrow> bytes \<times> bytes"
  gcm_decrypt :: "bytes \<Rightarrow> bytes \<Rightarrow> bytes \<Rightarrow> bytes \<Rightarrow> bytes option"

text \<open>
  What the methods rely on: the tag has 16 bytes, and decrypting under the key, IV and tag
  of an encryption gives the cleartext back.
\<close>

definition gcm_contract :: "gcm \<Rightarrow> bool" where
  "gcm_contract G =
     (\<forall>key iv cleartext.
        length (snd (gcm_encrypt G key iv cleartext)) = 16 \<and>
        gcm_decrypt G key iv (snd (gcm_encrypt G key iv cleartext))
          (fst (gcm_encrypt G key iv cleartext)) = Some cleartext)"

text \<open>\<open>AES.block_size\<close> of the \<open>cryptography\<close> package, in bits.\<close>

definition AES_block_size :: int where
  "AES_block_size = 128"

text \<open>\<open>os.urandom(n)\<close> reads \<open>n\<close> bytes from an entropy source.\<close>

type_synonym entropy = "nat \<Rightarrow> char"

definition urandom :: "int \<Rightarrow> entropy \<Rightarrow> bytes" where
  "urandom n ent = map ent [0..<nat n]"

datatype crypto_error = InvalidTag

definition AESKey_encrypt :: "gcm \<Rightarrow> bytes \<Rightarrow> entropy \<Rightarrow> bytes \<Rightarrow> bytes" where
  "AESKey_encrypt G key ent cleartext =
     (let iv = urandom (AES_block_size div 8) ent;
          enc = fst (gcm_encrypt G key iv cleartext);
          tag = snd (gcm_encrypt G key iv cleartext)
      in iv @ enc @ tag)"

definition AESKey_decrypt :: "gcm \<Rightarrow> bytes \<Rightarrow> bytes \<Rightarrow> crypto_error + bytes" where
  "AESKey_decrypt G key ciphertext =
     (let iv = slice_to ciphertext (AES_block_size div 8);
          tag = slice_from ciphertext (- 16)
      in case gcm_decrypt G key iv tag (slice ciphertext 16 (- 16)) of
           None \<Rightarrow> Inl InvalidTag
         | Some cleartext \<Rightarrow> Inr cleartext)"

text \<open>
  A stand-in cipher that meets the contract, to run the methods on concrete inputs: the
  data is reversed and the tag is cut from the key, the IV and padding.
\<close>

definition toy_tag :: "bytes \<Rightarrow> bytes \<Rightarrow> bytes" where
  "toy_tag key iv = take 16 (iv @ key @ replicate 16 (CHR ''#''))"

definition toy_gcm :: gcm where
  "toy_gcm =
     \<lparr>gcm_encrypt = (\<lambda>key iv cleartext. (rev cleartext, toy_tag key iv)),
      gcm_decrypt = (\<lambda>key iv tag data. if tag = toy_tag key iv then Some (rev data) else None)\<rparr>"

definition key_k :: bytes where
  "key_k = replicate 32 (CHR ''k'')"

definition ent_a :: entropy where
  "ent_a = (\<lambda>n. CHR ''a'')"

definition ent_b :: entropy where
  "ent_b = (\<lambda>n. CHR ''b'')"

section \<open>The effects of the file engine\<close>

text \<open>
  The engine never meets a cleartext key stream: it calls \<open>encrypt\<close> and \<open>decrypt\<close> of a
  key, and the codecs of \<open>parsec.tools\<close> (\<open>to_jsonb64\<close>, \<open>from_jsonb64\<close>, \<open>ejson_dumps\<close>,
  \<open>ejson_loads\<close>) around them. A ciphertext on the wire is therefore kept as the key
  together with the value sealed under it; decrypting under another key fails the tag
  check. Keys drawn by \<open>generate_sym_key\<close> come from a supply of fresh keys.
\<close>

type_synonym block_id = nat
type_synonym vlob_id = nat
type_synonym seed = nat
type_synonym key = nat
type_synonym href = nat

datatype 'a sealed = Sealed key 'a

datatype block_meta = BlockMeta (bm_block: block_id) (bm_digest: bytes) (bm_size: int)

datatype block_group = BlockGroup (bg_blocks: "block_meta list") (bg_key: key)

type_synonym blob = "block_group list"

text \<open>The requests of \<open>parsec.core.synchronizer\<close> that the engine yields.\<close>

datatype effect =
    EVlobCreate "blob sealed"
  | EVlobList
  | EVlobRead vlob_id seed "int option"
  | EVlobUpdate vlob_id seed int "blob sealed"
  | EVlobDelete vlob_id
  | EVlobSynchronize vlob_id
  | EBlockCreate "bytes sealed"
  | EBlockSynchronize block_id
  | EBlockRead block_id
  | EBlockDelete block_id

datatype vlob_access =
  VlobAccess (va_id: vlob_id) (va_read_trust_seed: seed) (va_write_trust_seed: seed)

datatype sync_result = SyncNothing | SyncSame | SyncNew vlob_access

text \<open>What a request is answered with: Python values, told apart by their shape.\<close>

datatype response =
    RVlobAccess vlob_access
  | RVlobList "vlob_id list"
  | RVlob vlob_id "blob sealed" int
  | RBlockId block_id
  | RBlock "bytes sealed"
  | RSync sync_result
  | RNone

datatype backend_error =
  BlockNotFound | VlobNotFound | VersionConflict | TrustSeedError | BackendUnavailable

datatype error =
    FileError string string
  | Backend backend_error
  | Crypto crypto_error
  | AssertionError
  | KeyError
  | TypeError

text \<open>
  The state a method runs in: the state of whatever resolves the requests, the requests
  issued so far, the \<open>File\<close> objects by reference, the class attribute \<open>File.files\<close>, and the
  key supply.
\<close>

record handle =
  f_id :: vlob_id
  f_read_trust_seed :: seed
  f_write_trust_seed :: seed
  f_encryptor :: key
  f_dirty :: bool
  f_version :: int
  f_modifications :: "modification list"

record 'b world =
  w_backend :: 'b
  w_trace :: "effect list"
  w_heap :: "href \<Rightarrow> handle"
  w_next_ref :: href
  w_files :: "(vlob_id, href) dict"
  w_next_key :: key

text \<open>
  The dispatcher that resolves the requests and the digest of \<open>parsec.tools\<close> are not
  under the engine's control: every method takes them as \<open>E\<close>.
\<close>

record 'b env =
  env_dispatch :: "effect \<Rightarrow> 'b \<Rightarrow> (backend_error + response) \<times> 'b"
  env_digest :: "bytes \<Rightarrow> bytes"

type_synonym ('b, 'a) prog = "'b world \<Rightarrow> (error + 'a) \<times> 'b world"

definition return :: "'a \<Rightarrow> ('b, 'a) prog" where
  "return x w = (Inr x, w)"

definition raise :: "error \<Rightarrow> ('b, 'a) prog" where
  "raise e w = (Inl e, w)"

definition seq :: "('b, 'a) prog \<Rightarrow> ('a \<Rightarrow> ('b, 'c) prog) \<Rightarrow> ('b, 'c) prog" where
  "seq m f w = (case m w of (Inl e, w') \<Rightarrow> (Inl e, w') | (Inr x, w') \<Rightarrow> f x w')"

text \<open>\<open>try: m except exc: handler\<close>, for one exception of the backend.\<close>

definition try_except :: "('b, 'a) prog \<Rightarrow> backend_error \<Rightarrow> ('b, 'a) prog \<Rightarrow> ('b, 'a) prog" where
  "try_except m exc handler w =
     (case m w of
        (Inl e, w') \<Rightarrow> if e = Backend exc then handler w' else (Inl e, w')
      | (Inr x, w') \<Rightarrow> (Inr x, w'))"

text \<open>A \<open>for\<close> loop that carries a value and may raise.\<close>

fun for_each :: "('s \<Rightarrow> 'a \<Rightarrow> ('b, 's) prog) \<Rightarrow> 's \<Rightarrow> 'a list \<Rightarrow> ('b, 's) prog" where
  "for_each body s [] = return s"
| "for_each body s (x # xs) = seq (body s x) (\<lambda>s'. for_each body s' xs)"

definition perform :: "'b env \<Rightarrow> effect \<Rightarrow> ('b, response) prog" where
  "perform E eff w =
     (case env_dispatch E eff (w_backend w) of
        (r, b') \<Rightarrow>
          ((case r of Inl e \<Rightarrow> Inl (Backend e) | Inr x \<Rightarrow> Inr x),
           w\<lparr>w_backend := b', w_trace := w_trace w @ [eff]\<rparr>))"

definition eVlobCreate :: "'b env \<Rightarrow> blob sealed \<Rightarrow> ('b, vlob_access) prog" where
  "eVlobCreate E encrypted_blob =
     seq (perform E (EVlobCreate encrypted_blob))
       (\<lambda>r. case r of RVlobAccess v \<Rightarrow> return v | _ \<Rightarrow> raise TypeError)"

definition eVlobList :: "'b env \<Rightarrow> ('b, vlob_id list) prog" where
  "eVlobList E =
     seq (perform E EVlobList) (\<lambda>r. case r of RVlobList l \<Rightarrow> return l | _ \<Rightarrow> raise TypeError)"

definition eVlobRead ::
  "'b env \<Rightarrow> vlob_id \<Rightarrow> seed \<Rightarrow> int option \<Rightarrow> ('b, vlob_id \<times> blob sealed \<times> int) prog" where
  "eVlobRead E i rts version =
     seq (perform E (EVlobRead i rts version))
       (\<lambda>r. case r of RVlob i' b v \<Rightarrow> return (i', b, v) | _ \<Rightarrow> raise TypeError)"

definition eVlobUpdate :: "'b env \<Rightarrow> vlob_id \<Rightarrow> seed \<Rightarrow> int \<Rightarrow> blob sealed \<Rightarrow> ('b, unit) prog" where
  "eVlobUpdate E i wts version encrypted_blob =
     seq (perform E (EVlobUpdate i wts version encrypted_blob)) (\<lambda>r. return ())"

definition eVlobDelete :: "'b env \<Rightarrow> vlob_id \<Rightarrow> ('b, unit) prog" where
  "eVlobDelete E i = seq (perform E (EVlobDelete i)) (\<lambda>r. return ())"

definition eVlobSynchronize :: "'b env \<Rightarrow> vlob_id \<Rightarrow> ('b, sync_result) prog" where
  "eVlobSynchronize E i =
     seq (perform E (EVlobSynchronize i))
       (\<lambda>r. case r of RSync x \<Rightarrow> return x | RNone \<Rightarrow> return SyncNothing | _ \<Rightarrow> raise TypeError)"

definition eBlockCreate :: "'b env \<Rightarrow> bytes sealed \<Rightarrow> ('b, block_id) prog" where
  "eBlockCreate E content =
     seq (perform E (EBlockCreate content))
       (\<lambda>r. case r of RBlockId i \<Rightarrow> return i | _ \<Rightarrow> raise TypeError)"

definition eBlockSynchronize :: "'b env \<Rightarrow> block_id \<Rightarrow> ('b, unit) prog" where
  "eBlockSynchronize E i = seq (perform E (EBlockSynchronize i)) (\<lambda>r. return ())"

definition eBlockRead :: "'b env \<Rightarrow> block_id \<Rightarrow> ('b, bytes sealed) prog" where
  "eBlockRead E i =
     seq (perform E (EBlockRead i)) (\<lambda>r. case r of RBlock c \<Rightarrow> return c | _ \<Rightarrow> raise TypeError)"

definition eBlockDelete :: "'b env \<Rightarrow> block_id \<Rightarrow> ('b, unit) prog" where
  "eBlockDelete E i = seq (perform E (EBlockDelete i)) (\<lambda>r. return ())"

definition generate_sym_key :: "('b, key) prog" where
  "generate_sym_key w = (Inr (w_next_key w), w\<lparr>w_next_key := w_next_key w + 1\<rparr>)"

definition encrypt :: "key \<Rightarrow> 'a \<Rightarrow> 'a sealed" where
  "encrypt k x = Sealed k x"

definition decrypt :: "key \<Rightarrow> 'a sealed \<Rightarrow> ('b, 'a) prog" where
  "decrypt k c = (case c of Sealed k' x \<Rightarrow> if k' = k then return x else raise (Crypto InvalidTag))"

text \<open>Attributes of \<open>self\<close>, and the allocation of a new \<open>File()\<close>.\<close>

definition self_get :: "href \<Rightarrow> ('b, handle) prog" where
  "self_get self w = (Inr (w_heap w self), w)"

definition self_upd :: "href \<Rightarrow> (handle \<Rightarrow> handle) \<Rightarrow> ('b, unit) prog" where
  "self_upd self f w = (Inr (), w\<lparr>w_heap := (w_heap w)(self := f (w_heap w self))\<rparr>)"

definition blank_file :: handle where
  "blank_file =
     \<lparr>f_id = 0, f_read_trust_seed = 0, f_write_trust_seed = 0, f_encryptor = 0,
      f_dirty = False, f_version = 0, f_modifications = []\<rparr>"

definition new_file :: "('b, href) prog" where
  "new_file w =
     (Inr (w_next_ref w),
      w\<lparr>w_heap := (w_heap w)(w_next_ref w := blank_file), w_next_ref := w_next_ref w + 1\<rparr>)"

definition files_set :: "vlob_id \<Rightarrow> href \<Rightarrow> ('b, unit) prog" where
  "files_set i self w = (Inr (), w\<lparr>w_files := dict_set (w_files w) i self\<rparr>)"

definition files_del :: "vlob_id \<Rightarrow> ('b, unit) prog" where
  "files_del i w =
     (if i \<in> set (dict_keys (w_files w))
      then (Inr (), w\<lparr>w_files := dict_del (w_files w) i\<rparr>)
      else (Inl KeyError, w))"

section \<open>The file engine: \<open>parsec.core.file.File\<close>\<close>

definition get_version :: "handle \<Rightarrow> int" where
  "get_version f = (if f_dirty f then f_version f + 1 else f_version f)"

definition py_range :: "int \<Rightarrow> int \<Rightarrow> int list" where
  "py_range stop step = map (\<lambda>k. int k * step) [0..<nat ((stop + step - 1) div step)]"

definition chunks_of :: "bytes \<Rightarrow> bytes list" where
  "chunks_of data =
     (let chunk_size = 4096;
          chunks = map (\<lambda>i. slice data i (i + chunk_size)) (py_range (len data) chunk_size)
      in if chunks = [] then [[]] else chunks)"

definition build_block :: "'b env \<Rightarrow> key \<Rightarrow> block_meta list \<Rightarrow> bytes \<Rightarrow> ('b, block_meta list) prog" where
  "build_block E encryptor blocks chunk =
     seq (eBlockCreate E (encrypt encryptor chunk)) (\<lambda>block_id.
       return (blocks @ [BlockMeta block_id (env_digest E chunk) (len chunk)]))"

definition build_file_blocks :: "'b env \<Rightarrow> href \<Rightarrow> bytes \<Rightarrow> ('b, block_group) prog" where
  "build_file_blocks E self data =
     seq generate_sym_key (\<lambda>encryptor.
     seq (for_each (build_block E encryptor) [] (chunks_of data)) (\<lambda>blocks.
     seq (self_upd self (\<lambda>f. f\<lparr>f_dirty := True\<rparr>)) (\<lambda>u.
     return (BlockGroup blocks encryptor))))"

text \<open>\<open>_find_matching_blocks\<close>: the loop state is the cursor and the seven results.\<close>

record matching =
  cursor :: int
  pre_excluded_blocks :: blob
  pre_excluded_data :: bytes
  pre_included_data :: bytes
  included_blocks :: blob
  post_included_data :: bytes
  post_excluded_data :: bytes
  post_excluded_blocks :: blob

definition sys_maxsize :: int where
  "sys_maxsize = 9223372036854775807"

definition append_block :: "blob \<Rightarrow> key \<Rightarrow> block_meta \<Rightarrow> blob" where
  "append_block l block_key block_properties =
     (if l \<noteq> [] \<and> bg_key (last l) = block_key
      then butlast l @ [BlockGroup (bg_blocks (last l) @ [block_properties]) block_key]
      else l @ [BlockGroup [block_properties] block_key])"

definition match_block ::
  "'b env \<Rightarrow> int \<Rightarrow> int \<Rightarrow> key \<Rightarrow> matching \<Rightarrow> block_meta \<Rightarrow> ('b, matching) prog" where
  "match_block E size' offset block_key st0 block_properties =
     (let c = cursor st0 + bm_size block_properties; st = st0\<lparr>cursor := c\<rparr>
      in if c \<le> offset then
           return (st\<lparr>pre_excluded_blocks :=
                        append_block (pre_excluded_blocks st) block_key block_properties\<rparr>)
         else if c > offset \<and> c - bm_size block_properties < offset then
           (let delta = c - offset
            in seq (eBlockRead E (bm_block block_properties)) (\<lambda>content.
               seq (decrypt block_key content) (\<lambda>block_data.
               return (st\<lparr>pre_excluded_data := slice_to block_data (- delta),
                          pre_included_data := slice_to (slice_from block_data (- delta)) size',
                          post_excluded_data :=
                            (if size' < len (slice_from block_data (- delta))
                             then slice_from (slice_from block_data (- delta)) size'
                             else post_excluded_data st)\<rparr>))))
         else if c > offset \<and> c \<le> offset + size' then
           return (st\<lparr>included_blocks :=
                        append_block (included_blocks st) block_key block_properties\<rparr>)
         else if c > offset + size' \<and> c - bm_size block_properties < offset + size' then
           (let delta = offset + size' - (c - bm_size block_properties)
            in seq (eBlockRead E (bm_block block_properties)) (\<lambda>content.
               seq (decrypt block_key content) (\<lambda>block_data.
               return (st\<lparr>post_included_data := slice_to block_data delta,
                          post_excluded_data := slice_from block_data delta\<rparr>))))
         else
           return (st\<lparr>post_excluded_blocks :=
                        append_block (post_excluded_blocks st) block_key block_properties\<rparr>))"

definition match_group ::
  "'b env \<Rightarrow> int \<Rightarrow> int \<Rightarrow> matching \<Rightarrow> block_group \<Rightarrow> ('b, matching) prog" where
  "match_group E size' offset st blocks_and_key =
     for_each (match_block E size' offset (bg_key blocks_and_key)) st (bg_blocks blocks_and_key)"

definition matching_init :: matching where
  "matching_init =
     \<lparr>cursor = 0, pre_excluded_blocks = [], pre_excluded_data = [], pre_included_data = [],
      included_blocks = [], post_included_data = [], post_excluded_data = [],
      post_excluded_blocks = []\<rparr>"

definition find_matching_blocks ::
  "'b env \<Rightarrow> href \<Rightarrow> int option \<Rightarrow> int \<Rightarrow> ('b, matching) prog" where
  "find_matching_blocks E self size_opt offset =
     (let size' = (case size_opt of None \<Rightarrow> sys_maxsize | Some n \<Rightarrow> n)
      in seq (self_get self) (\<lambda>f.
         seq (eVlobRead E (f_id f) (f_read_trust_seed f) (Some (get_version f))) (\<lambda>vlob.
         seq (decrypt (f_encryptor f) (fst (snd vlob))) (\<lambda>blob.
         for_each (match_group E size' offset) matching_init blob))))"

definition get_blocks :: "'b env \<Rightarrow> href \<Rightarrow> ('b, block_id list) prog" where
  "get_blocks E self =
     seq (find_matching_blocks E self None 0) (\<lambda>blocks.
       return (concat (map (\<lambda>blocks_and_key. map bm_block (bg_blocks blocks_and_key))
                 (pre_excluded_blocks blocks @ included_blocks blocks))))"

definition shortest_step :: "int option \<Rightarrow> modification \<Rightarrow> int option" where
  "shortest_step shortest_truncate m =
     (case m of
        Write data offset \<Rightarrow> shortest_truncate
      | Truncate length' \<Rightarrow>
          (case shortest_truncate of
             None \<Rightarrow> Some length'
           | Some s \<Rightarrow> if s = 0 \<or> s > length' then Some length' else Some s))"

definition set_dirty :: "href \<Rightarrow> bool \<Rightarrow> ('b, unit) prog" where
  "set_dirty self d = self_upd self (\<lambda>f. f\<lparr>f_dirty := d\<rparr>)"

definition flush_truncate :: "'b env \<Rightarrow> href \<Rightarrow> int \<Rightarrow> ('b, unit) prog" where
  "flush_truncate E self shortest_truncate =
     seq (find_matching_blocks E self (Some shortest_truncate) 0) (\<lambda>matching_blocks.
     seq (build_file_blocks E self (post_included_data matching_blocks)) (\<lambda>new_blocks.
     seq (self_get self) (\<lambda>f.
     seq (eVlobUpdate E (f_id f) (f_write_trust_seed f) (f_version f + 1)
            (encrypt (f_encryptor f) (included_blocks matching_blocks @ [new_blocks]))) (\<lambda>u.
     set_dirty self True))))"

definition flush_region :: "'b env \<Rightarrow> href \<Rightarrow> unit \<Rightarrow> int \<times> bytes \<Rightarrow> ('b, unit) prog" where
  "flush_region E self u entry =
     (let offset = fst entry; content = snd entry
      in seq (find_matching_blocks E self (Some (len content)) offset) (\<lambda>matching_blocks.
         seq (build_file_blocks E self
                (pre_excluded_data matching_blocks @ content @
                 post_excluded_data matching_blocks)) (\<lambda>new_blocks.
         seq (self_get self) (\<lambda>f.
         seq (eVlobUpdate E (f_id f) (f_write_trust_seed f) (f_version f + 1)
                (encrypt (f_encryptor f)
                   (pre_excluded_blocks matching_blocks @ [new_blocks] @
                    post_excluded_blocks matching_blocks))) (\<lambda>u.
         set_dirty self True)))))"

definition clean_block :: "'b env \<Rightarrow> block_id list \<Rightarrow> unit \<Rightarrow> block_id \<Rightarrow> ('b, unit) prog" where
  "clean_block E current_block_ids u block_id =
     (if block_id \<notin> set current_block_ids
      then try_except (eBlockDelete E block_id) BlockNotFound (return ())
      else return ())"

definition flush :: "'b env \<Rightarrow> href \<Rightarrow> ('b, unit) prog" where
  "flush E self =
     seq (self_get self) (\<lambda>f.
       if f_modifications f = [] then return ()
       else
         (let builder = foldl cb_apply [] (f_modifications f);
              shortest_truncate = foldl shortest_step None (f_modifications f)
          in seq (self_upd self (\<lambda>f. f\<lparr>f_modifications := []\<rparr>)) (\<lambda>u.
             seq (get_blocks E self) (\<lambda>previous_block_ids.
             seq (case shortest_truncate of
                    None \<Rightarrow> return ()
                  | Some t \<Rightarrow> flush_truncate E self t) (\<lambda>u.
             seq (for_each (flush_region E self) () builder) (\<lambda>u.
             seq (get_blocks E self) (\<lambda>current_block_ids.
             for_each (clean_block E current_block_ids) () previous_block_ids)))))))"

definition read_block :: "'b env \<Rightarrow> key \<Rightarrow> bytes \<Rightarrow> block_meta \<Rightarrow> ('b, bytes) prog" where
  "read_block E encryptor data block_properties =
     seq (eBlockRead E (bm_block block_properties)) (\<lambda>content.
     seq (decrypt encryptor content) (\<lambda>chunk_data.
       if env_digest E chunk_data \<noteq> bm_digest block_properties then raise AssertionError
       else if len chunk_data \<noteq> bm_size block_properties then raise AssertionError
       else return (data @ chunk_data)))"

definition read_group :: "'b env \<Rightarrow> bytes \<Rightarrow> block_group \<Rightarrow> ('b, bytes) prog" where
  "read_group E data blocks_and_key =
     for_each (read_block E (bg_key blocks_and_key)) data (bg_blocks blocks_and_key)"

definition file_read :: "'b env \<Rightarrow> href \<Rightarrow> int option \<Rightarrow> int \<Rightarrow> ('b, bytes) prog" where
  "file_read E self size_opt offset =
     seq (flush E self) (\<lambda>u.
     seq (find_matching_blocks E self size_opt offset) (\<lambda>matching_blocks.
     seq (for_each (read_group E) (pre_included_data matching_blocks)
            (included_blocks matching_blocks)) (\<lambda>data.
     return (data @ post_included_data matching_blocks))))"

definition file_write :: "href \<Rightarrow> bytes \<Rightarrow> int \<Rightarrow> ('b, unit) prog" where
  "file_write self data offset =
     self_upd self (\<lambda>f. f\<lparr>f_modifications := f_modifications f @ [Write data offset]\<rparr>)"

definition file_truncate :: "href \<Rightarrow> int \<Rightarrow> ('b, unit) prog" where
  "file_truncate self length' =
     self_upd self (\<lambda>f. f\<lparr>f_modifications := f_modifications f @ [Truncate length']\<rparr>)"

record file_stat =
  stat_id :: vlob_id
  stat_size :: int
  stat_version :: int

definition stat_step :: "int \<Rightarrow> modification \<Rightarrow> int" where
  "stat_step size' m =
     (case m of
        Write data offset \<Rightarrow>
          (let end_offset = offset + len data in if size' < end_offset then end_offset else size')
      | Truncate length' \<Rightarrow> if size' > length' then length' else size')"

definition stat :: "'b env \<Rightarrow> href \<Rightarrow> ('b, file_stat) prog" where
  "stat E self =
     seq (self_get self) (\<lambda>f.
     seq (eVlobRead E (f_id f) (f_read_trust_seed f) (Some (get_version f))) (\<lambda>vlob.
     seq (decrypt (f_encryptor f) (fst (snd vlob))) (\<lambda>blob.
       (let size' = sum_list (concat (map (\<lambda>blocks_and_key. map bm_size (bg_blocks blocks_and_key)) blob))
        in return \<lparr>stat_id = f_id f,
                    stat_size = foldl stat_step size' (f_modifications f),
                    stat_version = snd (snd vlob)\<rparr>))))"

datatype vlob_desc =
  VlobDesc (vd_id: vlob_id) (vd_read_trust_seed: seed) (vd_write_trust_seed: seed) (vd_key: key)

definition get_vlob :: "handle \<Rightarrow> vlob_desc" where
  "get_vlob f = VlobDesc (f_id f) (f_read_trust_seed f) (f_write_trust_seed f) (f_encryptor f)"

datatype commit_result = CommitNothing | CommitSame | CommitNew vlob_desc

definition set_access :: "href \<Rightarrow> vlob_access \<Rightarrow> ('b, unit) prog" where
  "set_access self v =
     self_upd self (\<lambda>f. f\<lparr>f_id := va_id v, f_read_trust_seed := va_read_trust_seed v,
                         f_write_trust_seed := va_write_trust_seed v\<rparr>)"

definition commit :: "'b env \<Rightarrow> href \<Rightarrow> ('b, commit_result) prog" where
  "commit E self =
     seq (flush E self) (\<lambda>u.
     seq (get_blocks E self) (\<lambda>block_ids.
     seq (for_each (\<lambda>u block_id. eBlockSynchronize E block_id) () block_ids) (\<lambda>u.
     seq (self_get self) (\<lambda>f.
     seq (eVlobSynchronize E (f_id f)) (\<lambda>new_vlob.
     seq (case new_vlob of
            SyncNothing \<Rightarrow> return CommitNothing
          | SyncSame \<Rightarrow>
              seq (self_upd self (\<lambda>f. f\<lparr>f_version := f_version f + 1\<rparr>)) (\<lambda>u.
              return CommitSame)
          | SyncNew v \<Rightarrow>
              seq (files_del (f_id f)) (\<lambda>u.
              seq (set_access self v) (\<lambda>u.
              seq (self_get self) (\<lambda>f'.
              seq (files_set (f_id f') self) (\<lambda>u.
              seq (self_upd self (\<lambda>f. f\<lparr>f_version := f_version f + 1\<rparr>)) (\<lambda>u.
              return (CommitNew (get_vlob f')))))))) (\<lambda>result.
     seq (set_dirty self False) (\<lambda>u.
     return result)))))))"

definition discard_block :: "'b env \<Rightarrow> bool \<Rightarrow> block_id \<Rightarrow> ('b, bool) prog" where
  "discard_block E already_synchronized block_id =
     try_except (seq (eBlockDelete E block_id) (\<lambda>u. return already_synchronized))
       BlockNotFound (return True)"

definition discard :: "'b env \<Rightarrow> href \<Rightarrow> ('b, bool) prog" where
  "discard E self =
     seq (self_upd self (\<lambda>f. f\<lparr>f_modifications := []\<rparr>)) (\<lambda>u.
     seq (get_blocks E self) (\<lambda>block_ids.
     seq (for_each (discard_block E) False block_ids) (\<lambda>already_synchronized.
     seq (self_get self) (\<lambda>f.
     seq (try_except (seq (eVlobDelete E (f_id f)) (\<lambda>u. return already_synchronized))
            VlobNotFound (return True)) (\<lambda>already_synchronized.
     seq (set_dirty self False) (\<lambda>u.
     return (\<not> already_synchronized)))))))"

definition bad_version :: error where
  "bad_version = FileError ''bad_version'' ''Bad version number.''"

text \<open>The version that \<open>restore\<close> goes back to: the one given, or by default the one before.\<close>

definition restore_target :: "handle \<Rightarrow> int option \<Rightarrow> int" where
  "restore_target f version_opt =
     (case version_opt of None \<Rightarrow> get_version f - 1 | Some v \<Rightarrow> v)"

definition restore :: "'b env \<Rightarrow> href \<Rightarrow> int option \<Rightarrow> ('b, unit) prog" where
  "restore E self version_opt =
     seq (self_get self) (\<lambda>f0.
       (let version = (case version_opt of None \<Rightarrow> get_version f0 - 1 | Some v \<Rightarrow> v)
        in if version < 1 \<or> version \<ge> get_version f0 then raise bad_version
           else
             seq (discard E self) (\<lambda>r.
             seq (self_get self) (\<lambda>f.
             seq (eVlobRead E (f_id f) (f_read_trust_seed f) (Some version)) (\<lambda>vlob.
             seq (eVlobUpdate E (f_id f) (f_write_trust_seed f) (f_version f + 1)
                    (fst (snd vlob))) (\<lambda>u.
             set_dirty self True))))))"

text \<open>
  What the dispatcher answers when \<open>restore\<close> reads the version to go back to: the read is
  resolved in the state that \<open>discard\<close> has left.
\<close>

definition historical_read ::
  "'b env \<Rightarrow> href \<Rightarrow> int option \<Rightarrow> 'b world \<Rightarrow> (backend_error + response) \<times> 'b" where
  "historical_read E self version_opt w =
     env_dispatch E
       (EVlobRead (f_id (w_heap w self)) (f_read_trust_seed (w_heap w self))
          (Some (restore_target (w_heap w self) version_opt)))
       (w_backend (snd (discard E self w)))"

definition reencrypt :: "'b env \<Rightarrow> href \<Rightarrow> ('b, unit) prog" where
  "reencrypt E self =
     seq (flush E self) (\<lambda>u.
     seq (self_get self) (\<lambda>f.
     seq (eVlobRead E (f_id f) (f_read_trust_seed f) (Some (get_version f))) (\<lambda>old_vlob.
     seq (decrypt (f_encryptor f) (fst (snd old_vlob))) (\<lambda>new_blob.
     seq generate_sym_key (\<lambda>k.
     seq (self_upd self (\<lambda>f. f\<lparr>f_encryptor := k\<rparr>)) (\<lambda>u.
     seq (eVlobCreate E (encrypt k new_blob)) (\<lambda>new_vlob.
     seq (files_del (f_id f)) (\<lambda>u.
     seq (set_access self new_vlob) (\<lambda>u.
     seq (files_set (va_id new_vlob) self) (\<lambda>u.
     set_dirty self True))))))))))"

definition create :: "'b env \<Rightarrow> ('b, href) prog" where
  "create E =
     seq new_file (\<lambda>self.
     seq (build_file_blocks E self []) (\<lambda>blob.
     seq generate_sym_key (\<lambda>k.
     seq (self_upd self (\<lambda>f. f\<lparr>f_encryptor := k\<rparr>)) (\<lambda>u.
     seq (eVlobCreate E (encrypt k [blob])) (\<lambda>vlob.
     seq (set_access self vlob) (\<lambda>u.
     seq (self_upd self (\<lambda>f. f\<lparr>f_dirty := True, f_version := 0, f_modifications := []\<rparr>)) (\<lambda>u.
     seq (files_set (va_id vlob) self) (\<lambda>u.
     return self))))))))"

definition load ::
  "'b env \<Rightarrow> vlob_id \<Rightarrow> key \<Rightarrow> seed \<Rightarrow> seed \<Rightarrow> int option \<Rightarrow> ('b, href) prog" where
  "load E i k read_trust_seed write_trust_seed version w =
     (case map_of (w_files w) i of
        Some existing \<Rightarrow> return existing w
      | None \<Rightarrow>
          seq new_file (\<lambda>self.
          seq (self_upd self (\<lambda>f. f\<lparr>f_id := i, f_read_trust_seed := read_trust_seed,
                                   f_write_trust_seed := write_trust_seed,
                                   f_encryptor := k\<rparr>)) (\<lambda>u.
          seq (eVlobRead E i read_trust_seed version) (\<lambda>vlob.
          seq (self_upd self (\<lambda>f. f\<lparr>f_version := snd (snd vlob), f_dirty := False\<rparr>)) (\<lambda>u.
          seq (eVlobList E) (\<lambda>vlob_list.
          seq (if fst vlob \<in> set vlob_list
               then self_upd self (\<lambda>f. f\<lparr>f_dirty := True, f_version := f_version f - 1\<rparr>)
               else return ()) (\<lambda>u.
          seq (self_upd self (\<lambda>f. f\<lparr>f_modifications := []\<rparr>)) (\<lambda>u.
          seq (self_get self) (\<lambda>f.
          seq (files_set (f_id f) self) (\<lambda>u.
          return self))))))))) w)"

definition init_world :: "'b \<Rightarrow> 'b world" where
  "init_world b =
     \<lparr>w_backend = b, w_trace = [], w_heap = (\<lambda>r. blank_file), w_next_ref = 0, w_files = [],
      w_next_key = 0\<rparr>"

section \<open>Resolving the requests\<close>

text \<open>
  Modelled from the spec: \<open>parsec.core.synchronizer\<close>, which resolves the requests, is not
  among the sources. The block store, the vlob store and the write-back cache are those of
  the specification: a block is created under a fresh id and can be read, deleted and
  synchronized, an unknown id failing with \<open>BlockNotFound\<close>; a vlob is created under a
  fresh id with fresh trust seeds at version 1; an update is staged locally, overwrites
  the staged blob and must carry the committed version plus one; a read gives the staged
  version when it is the one asked for, else the largest committed version up to the
  requested one; \<open>delete\<close> removes all versions; \<open>synchronize\<close> promotes the staged
  version under the same id; \<open>list\<close> gives the ids with a staged version.
\<close>

record vlob_entry =
  ve_read_trust_seed :: seed
  ve_write_trust_seed :: seed
  ve_committed :: "blob sealed list"
  ve_staged :: "blob sealed option"

record store =
  st_blocks :: "block_id \<rightharpoonup> bytes sealed"
  st_dirty_blocks :: "block_id list"
  st_vlobs :: "vlob_id \<rightharpoonup> vlob_entry"
  st_next_id :: nat

definition store_init :: store where
  "store_init = \<lparr>st_blocks = Map.empty, st_dirty_blocks = [], st_vlobs = Map.empty, st_next_id = 0\<rparr>"

definition vlob_read_entry :: "vlob_id \<Rightarrow> vlob_entry \<Rightarrow> int option \<Rightarrow> backend_error + response" where
  "vlob_read_entry i e version =
     (let n = len (ve_committed e);
          wanted = (case version of None \<Rightarrow> n | Some v \<Rightarrow> min v n)
      in case ve_staged e of
           Some b \<Rightarrow>
             if (case version of None \<Rightarrow> True | Some v \<Rightarrow> v \<ge> n + 1) then Inr (RVlob i b (n + 1))
             else if wanted < 1 then Inl VlobNotFound
             else Inr (RVlob i (ve_committed e ! nat (wanted - 1)) wanted)
         | None \<Rightarrow>
             if wanted < 1 then Inl VlobNotFound
             else Inr (RVlob i (ve_committed e ! nat (wanted - 1)) wanted))"

text \<open>
  Modelled from the spec: the dispatcher of \<open>parsec.core.synchronizer\<close>, one equation per
  request, after the operations of the block store client, the vlob store client and the
  write-back cache.
\<close>

fun spec_dispatch :: "effect \<Rightarrow> store \<Rightarrow> (backend_error + response) \<times> store" where
  "spec_dispatch (EBlockCreate content) s =
     (Inr (RBlockId (st_next_id s)),
      s\<lparr>st_blocks := (st_blocks s)(st_next_id s \<mapsto> content),
        st_dirty_blocks := st_dirty_blocks s @ [st_next_id s],
        st_next_id := st_next_id s + 1\<rparr>)"
| "spec_dispatch (EBlockRead i) s =
     (case st_blocks s i of None \<Rightarrow> (Inl BlockNotFound, s) | Some c \<Rightarrow> (Inr (RBlock c), s))"
| "spec_dispatch (EBlockDelete i) s =
     (case st_blocks s i of
        None \<Rightarrow> (Inl BlockNotFound, s)
      | Some c \<Rightarrow>
          (Inr RNone, s\<lparr>st_blocks := (st_blocks s)(i := None),
                        st_dirty_blocks := removeAll i (st_dirty_blocks s)\<rparr>))"
| "spec_dispatch (EBlockSynchronize i) s =
     (case st_blocks s i of
        None \<Rightarrow> (Inl BlockNotFound, s)
      | Some c \<Rightarrow> (Inr RNone, s\<lparr>st_dirty_blocks := removeAll i (st_dirty_blocks s)\<rparr>))"
| "spec_dispatch (EVlobCreate b) s =
     (let i = st_next_id s
      in (Inr (RVlobAccess (VlobAccess i (i + 1) (i + 2))),
          s\<lparr>st_vlobs := (st_vlobs s)(i \<mapsto>
                \<lparr>ve_read_trust_seed = i + 1, ve_write_trust_seed = i + 2,
                 ve_committed = [], ve_staged = Some b\<rparr>),
            st_next_id := i + 3\<rparr>))"
| "spec_dispatch (EVlobRead i rts version) s =
     (case st_vlobs s i of
        None \<Rightarrow> (Inl VlobNotFound, s)
      | Some e \<Rightarrow>
          if rts \<noteq> ve_read_trust_seed e then (Inl TrustSeedError, s)
          else (vlob_read_entry i e version, s))"
| "spec_dispatch (EVlobUpdate i wts version b) s =
     (case st_vlobs s i of
        None \<Rightarrow> (Inl VlobNotFound, s)
      | Some e \<Rightarrow>
          if wts \<noteq> ve_write_trust_seed e then (Inl TrustSeedError, s)
          else if version \<noteq> len (ve_committed e) + 1 then (Inl VersionConflict, s)
          else (Inr RNone, s\<lparr>st_vlobs := (st_vlobs s)(i \<mapsto> e\<lparr>ve_staged := Some b\<rparr>)\<rparr>))"
| "spec_dispatch (EVlobDelete i) s =
     (case st_vlobs s i of
        None \<Rightarrow> (Inl VlobNotFound, s)
      | Some e \<Rightarrow> (Inr RNone, s\<lparr>st_vlobs := (st_vlobs s)(i := None)\<rparr>))"
| "spec_dispatch (EVlobSynchronize i) s =
     (case st_vlobs s i of
        None \<Rightarrow> (Inl VlobNotFound, s)
      | Some e \<Rightarrow>
          (case ve_staged e of
             None \<Rightarrow> (Inr (RSync SyncNothing), s)
           | Some b \<Rightarrow>
               (Inr (RSync SyncSame),
                s\<lparr>st_vlobs := (st_vlobs s)(i \<mapsto>
                      e\<lparr>ve_committed := ve_committed e @ [b], ve_staged := None\<rparr>)\<rparr>)))"
| "spec_dispatch EVlobList s =
     (Inr (RVlobList (filter (\<lambda>i. case st_vlobs s i of
                                   None \<Rightarrow> False
                                 | Some e \<Rightarrow> ve_staged e \<noteq> None) [0..<st_next_id s])), s)"

text \<open>
  A stand-in for the SHA-256 digest of \<open>parsec.tools\<close>, to run the engine on concrete
  inputs: the chunk itself.
\<close>

definition spec_env :: "store env" where
  "spec_env = \<lparr>env_dispatch = spec_dispatch, env_digest = (\<lambda>chunk. chunk)\<rparr>"

text \<open>
  A dispatcher for tests, fed with the answers in advance: each request takes the next
  answer of the script.
\<close>

type_synonym script = "(backend_error + response) list"

definition scripted_dispatch :: "effect \<Rightarrow> script \<Rightarrow> (backend_error + response) \<times> script" where
  "scripted_dispatch eff script =
     (case script of [] \<Rightarrow> (Inl BackendUnavailable, []) | r # rs \<Rightarrow> (r, rs))"

definition scripted_env :: "script env" where
  "scripted_env = \<lparr>env_dispatch = scripted_dispatch, env_digest = (\<lambda>chunk. chunk)\<rparr>"

text \<open>Running one method after another, as long as none raises.\<close>

definition run :: "('b, 'a) prog \<Rightarrow> 'b world \<Rightarrow> 'b world" where
  "run m w = snd (m w)"

section \<open>Runs of the engine\<close>

text \<open>The methods of a \<open>File\<close>, to speak of any sequence of calls.\<close>

datatype file_op =
    Create
  | Load vlob_id key seed seed "int option"
  | FileWrite href bytes int
  | FileTruncate href int
  | FileRead href "int option" int
  | Stat href
  | Flush href
  | Commit href
  | Discard href
  | Restore href "int option"
  | Reencrypt href

fun apply_op :: "'b env \<Rightarrow> 'b world \<Rightarrow> file_op \<Rightarrow> 'b world" where
  "apply_op E w Create = run (create E) w"
| "apply_op E w (Load i k rts wts version) = run (load E i k rts wts version) w"
| "apply_op E w (FileWrite self data offset) = run (file_write self data offset) w"
| "apply_op E w (FileTruncate self length') = run (file_truncate self length') w"
| "apply_op E w (FileRead self size_opt offset) = run (file_read E self size_opt offset) w"
| "apply_op E w (Stat self) = run (stat E self) w"
| "apply_op E w (Flush self) = run (flush E self) w"
| "apply_op E w (Commit self) = run (commit E self) w"
| "apply_op E w (Discard self) = run (discard E self) w"
| "apply_op E w (Restore self version_opt) = run (restore E self version_opt) w"
| "apply_op E w (Reencrypt self) = run (reencrypt E self) w"

text \<open>The state that \<open>File.create()\<close> leaves on an empty store: one handle, registered.\<close>

definition created_world :: "store world" where
  "created_world =
     \<lparr>w_backend =
        \<lparr>st_blocks = [0 \<mapsto> Sealed 0 []], st_dirty_blocks = [0],
         st_vlobs = [1 \<mapsto> \<lparr>ve_read_trust_seed = 2, ve_write_trust_seed = 3, ve_committed = [],
                           ve_staged = Some (Sealed 1 [BlockGroup [BlockMeta 0 [] 0] 0])\<rparr>],
         st_next_id = 4\<rparr>,
      w_trace = [EBlockCreate (Sealed 0 []),
                 EVlobCreate (Sealed 1 [BlockGroup [BlockMeta 0 [] 0] 0])],
      w_heap = (\<lambda>r. blank_file)
                 (0 := \<lparr>f_id = 1, f_read_trust_seed = 2, f_write_trust_seed = 3, f_encryptor = 1,
                        f_dirty = True, f_version = 0, f_modifications = []\<rparr>),
      w_next_ref = 1, w_files = [(1, 0)], w_next_key = 2\<rparr>"

text \<open>The same file after \<open>commit()\<close>: version 1 is committed.\<close>

definition committed_world :: "store world" where
  "committed_world =
     \<lparr>w_backend =
        \<lparr>st_blocks = [0 \<mapsto> Sealed 0 []], st_dirty_blocks = [],
         st_vlobs = [1 \<mapsto> \<lparr>ve_read_trust_seed = 2, ve_write_trust_seed = 3,
                           ve_committed = [Sealed 1 [BlockGroup [BlockMeta 0 [] 0] 0]],
                           ve_staged = None\<rparr>],
         st_next_id = 4\<rparr>,
      w_trace = [EBlockCreate (Sealed 0 []),
                 EVlobCreate (Sealed 1 [BlockGroup [BlockMeta 0 [] 0] 0]),
                 EVlobRead 1 2 (Some 1), EBlockSynchronize 0, EVlobSynchronize 1],
      w_heap = (\<lambda>r. blank_file)
                 (0 := \<lparr>f_id = 1, f_read_trust_seed = 2, f_write_trust_seed = 3, f_encryptor = 1,
                        f_dirty = False, f_version = 1, f_modifications = []\<rparr>),
      w_next_ref = 1, w_files = [(1, 0)], w_next_key = 2\<rparr>"

text \<open>
  Then after \<open>write(b'HELLO', 0)\<close>, \<open>flush()\<close> and a pending \<open>write(b'x', 0)\<close>: version 2
  is staged, and the file holds the blocks 0 and 4.
\<close>

definition edited_world :: "store world" where
  "edited_world =
     \<lparr>w_backend =
        \<lparr>st_blocks = [0 \<mapsto> Sealed 0 [], 4 \<mapsto> Sealed 2 ''HELLO''], st_dirty_blocks = [4],
         st_vlobs = [1 \<mapsto> \<lparr>ve_read_trust_seed = 2, ve_write_trust_seed = 3,
                           ve_committed = [Sealed 1 [BlockGroup [BlockMeta 0 [] 0] 0]],
                           ve_staged = Some (Sealed 1 [BlockGroup [BlockMeta 0 [] 0] 0,
                                                       BlockGroup [BlockMeta 4 ''HELLO'' 5] 2])\<rparr>],
         st_next_id = 5\<rparr>,
      w_trace = [EBlockCreate (Sealed 0 []),
                 EVlobCreate (Sealed 1 [BlockGroup [BlockMeta 0 [] 0] 0]),
                 EVlobRead 1 2 (Some 1), EBlockSynchronize 0, EVlobSynchronize 1,
                 EVlobRead 1 2 (Some 1), EVlobRead 1 2 (Some 1),
                 EBlockCreate (Sealed 2 ''HELLO''),
                 EVlobUpdate 1 3 2 (Sealed 1 [BlockGroup [BlockMeta 0 [] 0] 0,
                                              BlockGroup [BlockMeta 4 ''HELLO'' 5] 2]),
                 EVlobRead 1 2 (Some 2)],
      w_heap = (\<lambda>r. blank_file)
                 (0 := \<lparr>f_id = 1, f_read_trust_seed = 2, f_write_trust_seed = 3, f_encryptor = 1,
                        f_dirty = True, f_version = 1, f_modifications = [Write ''x'' 0]\<rparr>),
      w_next_ref = 1, w_files = [(1, 0)], w_next_key = 3\<rparr>"

text \<open>
  A handle at version 1 with a staged change and a pending write, and the answers that a
  dispatcher keeping the committed versions would give to \<open>restore(1)\<close>.
\<close>

definition scripted_world :: "script world" where
  "scripted_world =
     \<lparr>w_backend =
        [Inr (RVlob 1 (Sealed 1 [BlockGroup [BlockMeta 5 ''HELLO'' 5] 2]) 2),
         Inr RNone, Inr RNone,
         Inr (RVlob 1 (Sealed 1 [BlockGroup [BlockMeta 4 ''hello'' 5] 1]) 1),
         Inr RNone],
      w_trace = [],
      w_heap = (\<lambda>r. blank_file)
                 (0 := \<lparr>f_id = 1, f_read_trust_seed = 2, f_write_trust_seed = 3, f_encryptor = 1,
                        f_dirty = True, f_version = 1, f_modifications = [Write ''x'' 0]\<rparr>),
      w_next_ref = 1, w_files = [(1, 0)], w_next_key = 3\<rparr>"

text \<open>
  The reference buffer of the specification: a write splices the bytes at its offset, a
  truncate cuts the buffer to the given length.
\<close>

fun reference_apply :: "bytes \<Rightarrow> modification \<Rightarrow> bytes" where
  "reference_apply buf (Write data offset) =
     slice_to buf offset @ data @ slice_from buf (offset + len data)"
| "reference_apply buf (Truncate length') = slice_to buf length'"

text \<open>The requests issued between two states, and the requests that only read.\<close>

definition new_effects :: "'b world \<Rightarrow> 'b world \<Rightarrow> effect list" where
  "new_effects w w' = drop (length (w_trace w)) (w_trace w')"

fun is_read :: "effect \<Rightarrow> bool" where
  "is_read (EVlobRead i rts version) = True"
| "is_read (EBlockRead i) = True"
| "is_read eff = False"

text \<open>
  Two ways to speak of every run of a method: a relation between the state before and the
  state after, whatever the outcome, and a property of every exception it raises.
\<close>

definition steps :: "('b world \<Rightarrow> 'b world \<Rightarrow> bool) \<Rightarrow> ('b, 'a) prog \<Rightarrow> bool" where
  "steps R m = (\<forall>w. R w (snd (m w)))"

definition raises_only :: "(error \<Rightarrow> bool) \<Rightarrow> ('b, 'a) prog \<Rightarrow> bool" where
  "raises_only P m = (\<forall>w e. fst (m w) = Inl e \<longrightarrow> P e)"

definition files_same :: "'b world \<Rightarrow> 'b world \<Rightarrow> bool" where
  "files_same w w' = (w_files w' = w_files w)"

definition keeps_distinct :: "'b world \<Rightarrow> 'b world \<Rightarrow> bool" where
  "keeps_distinct w w' =
     (distinct (dict_keys (w_files w)) \<longrightarrow> distinct (dict_keys (w_files w')))"

definition reads_only :: "'b world \<Rightarrow> 'b world \<Rightarrow> bool" where
  "reads_only w w' =
     (w_heap w' = w_heap w \<and> w_files w' = w_files w \<and>
      (\<exists>reads. w_trace w' = w_trace w @ reads \<and> list_all is_read reads))"

fun other_error :: "error \<Rightarrow> bool" where
  "other_error (FileError status label) = False"
| "other_error e = True"

section \<open>Results for ContentBuilder\<close>

text \<open>
  C2. After \<open>write(b'aaaa', 0)\<close> and \<open>write(b'bbbb', 2)\<close> on a new builder, the second write
  matches none of the three merge cases (it starts inside the first region and ends after
  it), so it is stored as a region of its own: the map holds \<open>0 \<mapsto> aaaa\<close> and
  \<open>2 \<mapsto> bbbb\<close>, which overlap on the positions 2 and 3.
\<close>

theorem cb_write_overlap:
  "foldl cb_apply [] [Write ''aaaa'' 0, Write ''bbbb'' 2] = [(0, ''aaaa''), (2, ''bbbb'')]
   \<and> \<not> no_overlap (foldl cb_apply [] [Write ''aaaa'' 0, Write ''bbbb'' 2])"
  by (simp add: cb_write_def write_step_def len_def dict_del_def no_overlap_def
      slice_to_def slice_from_def slice_bound_def)

section \<open>Runs on the store of the specification\<close>

lemmas prog_defs = return_def raise_def seq_def try_except_def perform_def
  eVlobCreate_def eVlobList_def eVlobRead_def eVlobUpdate_def eVlobDelete_def
  eVlobSynchronize_def eBlockCreate_def eBlockSynchronize_def eBlockRead_def eBlockDelete_def
  generate_sym_key_def encrypt_def decrypt_def self_get_def self_upd_def new_file_def
  files_set_def files_del_def set_dirty_def set_access_def run_def

lemmas engine_defs = get_version_def py_range_def chunks_of_def build_block_def
  build_file_blocks_def append_block_def match_block_def match_group_def matching_init_def
  find_matching_blocks_def get_blocks_def shortest_step_def flush_truncate_def
  flush_region_def clean_block_def flush_def read_block_def read_group_def file_read_def
  file_write_def file_truncate_def commit_def discard_block_def discard_def restore_def
  create_def sys_maxsize_def bad_version_def

lemmas value_defs = len_def slice_def slice_to_def slice_from_def slice_bound_def
  dict_del_def dict_keys_def cb_write_def write_step_def cb_truncate_def truncate_step_def
  Let_def

lemmas spec_defs = spec_env_def store_init_def init_world_def vlob_read_entry_def
  blank_file_def eval_nat_numeral

lemma create_spec: "create spec_env (init_world store_init) = (Inr 0, created_world)"
  by (simp add: prog_defs engine_defs value_defs spec_defs created_world_def)

lemma commit_spec: "commit spec_env 0 created_world = (Inr CommitSame, committed_world)"
  by (simp add: prog_defs engine_defs value_defs spec_defs created_world_def committed_world_def)

lemma edit_spec:
  "foldl (apply_op spec_env) committed_world
     [FileWrite 0 ''HELLO'' 0, Flush 0, FileWrite 0 ''x'' 0] = edited_world"
  by (simp add: prog_defs engine_defs value_defs spec_defs edited_world_def committed_world_def)

lemma edited_world_reached:
  "foldl (apply_op spec_env) (init_world store_init)
     [Create, Commit 0, FileWrite 0 ''HELLO'' 0, Flush 0, FileWrite 0 ''x'' 0] = edited_world"
  using edit_spec by (simp add: create_spec commit_spec run_def)

text \<open>
  C1. On a new file, \<open>write(b'aaaa', 0)\<close>, \<open>write(b'bbbb', 2)\<close>, \<open>write(b'c', 3)\<close>, then
  \<open>flush()\<close> and \<open>read()\<close>: the file reads \<open>cb\<close>, where the reference buffer holds
  \<open>aabcbb\<close>. The third write finds the region at 0 first, takes its offset, and then
  meets the region at 2 with the offset of the first and the length of the new data.
\<close>

theorem flush_read_diverges:
  "create spec_env (init_world store_init) = (Inr 0, created_world)
   \<and> fst (file_read spec_env 0 None 0
          (foldl (apply_op spec_env) created_world
             [FileWrite 0 ''aaaa'' 0, FileWrite 0 ''bbbb'' 2, FileWrite 0 ''c'' 3, Flush 0]))
     = Inr ''cb''
   \<and> foldl reference_apply [] [Write ''aaaa'' 0, Write ''bbbb'' 2, Write ''c'' 3] = ''aabcbb''"
  by (simp add: create_spec)
     (simp add: prog_defs engine_defs value_defs spec_defs created_world_def)

section \<open>Rules for the two judgements\<close>

lemma steps_return: "reflp R \<Longrightarrow> steps R (return x)"
  by (simp add: steps_def return_def reflp_def)

lemma steps_raise: "reflp R \<Longrightarrow> steps R (raise e)"
  by (simp add: steps_def raise_def reflp_def)

lemma steps_seq:
  assumes "transp R" and "steps R m" and "\<And>x. steps R (g x)"
  shows "steps R (seq m g)"
proof -
  have "R w (snd (seq m g w))" for w
  proof (cases "m w")
    case (Pair r w')
    have a: "R w w'" using assms(2) Pair by (auto simp: steps_def dest: spec [of _ w])
    show ?thesis
    proof (cases r)
      case (Inl e)
      with Pair a show ?thesis by (simp add: seq_def)
    next
      case (Inr x)
      have "R w' (snd (g x w'))" using assms(3) by (simp add: steps_def)
      with a have "R w (snd (g x w'))" using assms(1) by (blast dest: transpD)
      with Pair Inr show ?thesis by (simp add: seq_def)
    qed
  qed
  then show ?thesis by (simp add: steps_def)
qed

lemma steps_try_except:
  assumes "transp R" and "steps R m" and "steps R h"
  shows "steps R (try_except m exc h)"
proof -
  have "R w (snd (try_except m exc h w))" for w
  proof (cases "m w")
    case (Pair r w')
    have a: "R w w'" using assms(2) Pair by (auto simp: steps_def dest: spec [of _ w])
    have "R w' (snd (h w'))" using assms(3) by (simp add: steps_def)
    with a have "R w (snd (h w'))" using assms(1) by (blast dest: transpD)
    with a Pair show ?thesis by (cases r) (simp_all add: try_except_def)
  qed
  then show ?thesis by (simp add: steps_def)
qed

lemma steps_for_each:
  assumes "reflp R" and "transp R" and "\<And>s x. steps R (body s x)"
  shows "steps R (for_each body s xs)"
  by (induction xs arbitrary: s) (simp_all add: steps_return steps_seq assms)

lemma steps_if:
  "(c \<Longrightarrow> steps R a) \<Longrightarrow> (\<not> c \<Longrightarrow> steps R b) \<Longrightarrow> steps R (if c then a else b)"
  by simp

lemmas steps_intros = steps_return steps_raise steps_seq steps_try_except steps_for_each steps_if

lemma raises_return: "raises_only P (return x)"
  by (simp add: raises_only_def return_def)

lemma raises_raise: "P e \<Longrightarrow> raises_only P (raise e)"
  by (simp add: raises_only_def raise_def)

lemma raises_seq:
  assumes "raises_only P m" and "\<And>x. raises_only P (g x)"
  shows "raises_only P (seq m g)"
proof -
  have "P e" if "fst (seq m g w) = Inl e" for w e
  proof (cases "m w")
    case (Pair r w')
    show ?thesis
    proof (cases r)
      case (Inl e')
      with Pair that have "fst (m w) = Inl e" by (simp add: seq_def)
      with assms(1) show ?thesis by (simp add: raises_only_def)
    next
      case (Inr x)
      with Pair that have "fst (g x w') = Inl e" by (simp add: seq_def)
      with assms(2) show ?thesis by (simp add: raises_only_def)
    qed
  qed
  then show ?thesis by (simp add: raises_only_def)
qed

lemma raises_try_except:
  assumes "raises_only P m" and "raises_only P h"
  shows "raises_only P (try_except m exc h)"
proof -
  have "P e" if "fst (try_except m exc h w) = Inl e" for w e
  proof (cases "m w")
    case (Pair r w')
    show ?thesis
    proof (cases r)
      case (Inl e')
      show ?thesis
      proof (cases "e' = Backend exc")
        case True
        with Pair Inl that have "fst (h w') = Inl e" by (simp add: try_except_def)
        with assms(2) show ?thesis by (simp add: raises_only_def)
      next
        case False
        with Pair Inl that have "fst (m w) = Inl e" by (simp add: try_except_def)
        with assms(1) show ?thesis by (simp add: raises_only_def)
      qed
    next
      case (Inr x)
      with Pair that show ?thesis by (simp add: try_except_def)
    qed
  qed
  then show ?thesis by (simp add: raises_only_def)
qed

lemma raises_for_each:
  assumes "\<And>s x. raises_only P (body s x)"
  shows "raises_only P (for_each body s xs)"
  by (induction xs arbitrary: s) (simp_all add: raises_return raises_seq assms)

lemma raises_if:
  "(c \<Longrightarrow> raises_only P a) \<Longrightarrow> (\<not> c \<Longrightarrow> raises_only P b)
   \<Longrightarrow> raises_only P (if c then a else b)"
  by simp

lemmas raises_intros =
  raises_return raises_raise raises_seq raises_try_except raises_for_each raises_if

section \<open>The registry is left alone\<close>

lemma files_same_rt: "reflp files_same" "transp files_same"
  by (auto simp: files_same_def reflp_def transp_def)

lemma files_same_prims:
  "steps files_same (perform E eff)"
  "steps files_same generate_sym_key"
  "steps files_same (self_get self)"
  "steps files_same (self_upd self u)"
  "steps files_same new_file"
  "steps files_same (decrypt k c)"
  by (auto simp: steps_def files_same_def perform_def generate_sym_key_def self_get_def
      self_upd_def new_file_def decrypt_def return_def raise_def split: prod.splits sealed.splits)

lemma files_same_effects:
  "steps files_same (eVlobRead E i r v)"
  "steps files_same (eBlockRead E b)"
  "steps files_same (eBlockDelete E b)"
  "steps files_same (eVlobDelete E i)"
  unfolding eVlobRead_def eBlockRead_def eBlockDelete_def eVlobDelete_def
  by (auto intro!: steps_intros files_same_rt files_same_prims split: response.splits)

lemma files_same_find_matching_blocks:
  "steps files_same (find_matching_blocks E self size_opt offset)"
  unfolding find_matching_blocks_def match_group_def match_block_def Let_def
  by (intro steps_intros files_same_rt files_same_prims files_same_effects conjI impI allI)

lemma files_same_discard: "steps files_same (discard E self)"
  unfolding discard_def get_blocks_def discard_block_def set_dirty_def
  by (intro steps_intros files_same_rt files_same_prims files_same_effects
      files_same_find_matching_blocks)

section \<open>No method below \<open>restore\<close> raises a \<open>FileError\<close>\<close>


lemma other_error_prims:
  "raises_only other_error (perform E eff)"
  "raises_only other_error generate_sym_key"
  "raises_only other_error (self_get self)"
  "raises_only other_error (self_upd self u)"
  "raises_only other_error (decrypt k c)"
  by (auto simp: raises_only_def perform_def generate_sym_key_def self_get_def
      self_upd_def decrypt_def return_def raise_def split: prod.splits sealed.splits sum.splits)

lemma other_error_effects:
  "raises_only other_error (eVlobRead E i r v)"
  "raises_only other_error (eVlobUpdate E i r n b)"
  "raises_only other_error (eBlockRead E bi)"
  "raises_only other_error (eBlockDelete E bi)"
  "raises_only other_error (eVlobDelete E i)"
  unfolding eVlobRead_def eVlobUpdate_def eBlockRead_def eBlockDelete_def eVlobDelete_def
  by (auto intro!: raises_intros other_error_prims split: response.splits)

lemma other_error_find_matching_blocks:
  "raises_only other_error (find_matching_blocks E self size_opt offset)"
  unfolding find_matching_blocks_def match_group_def match_block_def Let_def
  by (intro raises_intros other_error_prims other_error_effects conjI impI allI)

lemma other_error_discard: "raises_only other_error (discard E self)"
  unfolding discard_def get_blocks_def discard_block_def set_dirty_def
  by (intro raises_intros other_error_prims other_error_effects
      other_error_find_matching_blocks)


lemma other_error_restore_body:
  "raises_only other_error
     (seq (discard E self) (\<lambda>r.
      seq (self_get self) (\<lambda>f.
      seq (eVlobRead E (f_id f) (f_read_trust_seed f) (Some version)) (\<lambda>vlob.
      seq (eVlobUpdate E (f_id f) (f_write_trust_seed f) (f_version f + 1)
             (fst (snd vlob))) (\<lambda>u.
      set_dirty self True)))))"
  unfolding set_dirty_def
  by (intro raises_intros other_error_prims other_error_effects other_error_discard)

lemma restore_checked:
  "fst (restore E self version_opt w) = Inl bad_version \<longleftrightarrow>
     (let version = (case version_opt of None \<Rightarrow> get_version (w_heap w self) - 1 | Some v \<Rightarrow> v)
      in version < 1 \<or> get_version (w_heap w self) \<le> version)"
proof -
  have "fst (m w) \<noteq> Inl bad_version" if "raises_only other_error m" for m :: "('a, unit) prog"
  proof
    assume "fst (m w) = Inl bad_version"
    with that have "other_error bad_version"
      unfolding raises_only_def by blast
    then show False by (simp add: bad_version_def)
  qed
  note body = this [OF other_error_restore_body]
  show ?thesis
    using body [of E self]
    by (simp add: restore_def seq_def [of "self_get self"] self_get_def raise_def Let_def)
qed

section \<open>Results for the version check of \<open>restore\<close>\<close>

text \<open>
  C7, amended. \<open>restore(version)\<close> raises \<open>FileError('bad_version')\<close> exactly when the
  version is below 1 or not below \<open>get_version()\<close>; called without a version it takes
  \<open>get_version() - 1\<close>, and so raises the error exactly when \<open>get_version()\<close> is below 2,
  that is, when the file has no earlier version.
\<close>

theorem restore_bad_version:
  "(fst (restore E self (Some v) w) = Inl bad_version) = (v < 1 \<or> get_version (w_heap w self) \<le> v)
   \<and> (fst (restore E self None w) = Inl bad_version) = (get_version (w_heap w self) < 2)"
  by (auto simp: restore_checked)

text \<open>At the edited file, whose \<open>get_version()\<close> is 2.\<close>

theorem restore_bad_version_witness:
  "fst (restore spec_env 0 (Some 1) edited_world) \<noteq> Inl bad_version
   \<and> fst (restore spec_env 0 (Some 2) edited_world) = Inl bad_version
   \<and> fst (restore spec_env 0 None edited_world) \<noteq> Inl bad_version"
  using restore_bad_version [of spec_env 0 1 edited_world]
    restore_bad_version [of spec_env 0 2 edited_world]
  by (simp add: edited_world_def get_version_def)

text \<open>
  C7, as stated: on a file just created (\<open>version = 0\<close>, dirty, \<open>get_version() = 1\<close>),
  \<open>restore()\<close> with the default argument raises \<open>bad_version\<close>.
\<close>

theorem restore_default_counterexample:
  "create spec_env (init_world store_init) = (Inr 0, created_world)
   \<and> fst (restore spec_env 0 None created_world) = Inl bad_version"
  by (simp add: create_spec) (simp add: restore_def prog_defs get_version_def created_world_def bad_version_def)

section \<open>Results for \<open>discard\<close> and the registry\<close>

text \<open>
  C9, amended. \<open>discard()\<close> leaves \<open>File.files\<close> as it is, whatever the dispatcher
  answers: the handle stays registered under its id.
\<close>

theorem discard_keeps_registry: "w_files (snd (discard E self w)) = w_files w"
  using files_same_discard [of E self] by (simp add: steps_def files_same_def)

theorem discard_keeps_registry_witness:
  "w_files (snd (discard spec_env 0 created_world)) = [(1, 0)]"
  using discard_keeps_registry [of spec_env 0 created_world] by (simp add: created_world_def)

text \<open>
  C9, as stated: after \<open>create()\<close> and \<open>discard()\<close>, which returns \<open>True\<close>, the registry
  still maps the id of the handle to the handle.
\<close>

theorem discard_registry_counterexample:
  "create spec_env (init_world store_init) = (Inr 0, created_world)
   \<and> f_id (w_heap created_world 0) = 1
   \<and> fst (discard spec_env 0 created_world) = Inr True
   \<and> map_of (w_files (snd (discard spec_env 0 created_world))) 1 = Some 0"
  by (simp add: create_spec)
     (simp add: prog_defs engine_defs value_defs spec_defs created_world_def)

section \<open>Results for \<open>flush\<close>\<close>

text \<open>
  C10. With an empty modification queue, \<open>flush()\<close> returns at once: it issues no
  request and leaves the whole state (the dispatcher's state, the handles with their id,
  version, dirty flag and encryptor, the registry and the key supply) as it was.
\<close>

theorem flush_noop:
  assumes "f_modifications (w_heap w self) = []"
  shows "flush E self w = (Inr (), w)"
  using assms by (simp add: flush_def seq_def self_get_def return_def)

theorem flush_noop_witness:
  "f_modifications (w_heap created_world 0) = []
   \<and> flush spec_env 0 created_world = (Inr (), created_world)"
proof -
  have h: "f_modifications (w_heap created_world 0) = []"
    by (simp add: created_world_def)
  from h flush_noop [OF h] show ?thesis by simp
qed

section \<open>Results for \<open>_build_file_blocks\<close>\<close>









lemma perform_world:
  "w_trace (snd (perform E eff w)) = w_trace w @ [eff]"
  "w_heap (snd (perform E eff w)) = w_heap w"
  "w_files (snd (perform E eff w)) = w_files w"
  "w_next_key (snd (perform E eff w)) = w_next_key w"
  by (simp_all add: perform_def split: prod.splits)





section \<open>Results for the registry under every method\<close>

lemma dict_set_keys: "set (dict_keys (dict_set d k v)) = insert k (set (dict_keys d))"
proof (induction d)
  case Nil
  then show ?case by (simp add: dict_keys_def)
next
  case (Cons e d)
  obtain k' v' where e: "e = (k', v')" by (cases e)
  from Cons show ?case
    unfolding e dict_keys_def by (cases "k' = k") (simp_all add: insert_commute)
qed

lemma dict_set_distinct:
  "distinct (dict_keys d) \<Longrightarrow> distinct (dict_keys (dict_set d k v))"
proof (induction d)
  case Nil
  then show ?case by (simp add: dict_keys_def)
next
  case (Cons e d)
  have "fst e \<notin> set (dict_keys (dict_set d k v))" if "fst e \<noteq> k" "fst e \<notin> set (dict_keys d)"
    using that by (simp add: dict_set_keys)
  with Cons show ?case by (cases e) (auto simp: dict_keys_def)
qed

lemma dict_del_distinct: "distinct (dict_keys d) \<Longrightarrow> distinct (dict_keys (dict_del d k))"
  by (simp add: dict_keys_def dict_del_def distinct_map_filter)

lemma keeps_distinct_rt: "reflp keeps_distinct" "transp keeps_distinct"
  by (auto simp: keeps_distinct_def reflp_def transp_def)

lemma keeps_distinct_prims:
  "steps keeps_distinct (perform E eff)"
  "steps keeps_distinct generate_sym_key"
  "steps keeps_distinct (self_get self)"
  "steps keeps_distinct (self_upd self u)"
  "steps keeps_distinct new_file"
  "steps keeps_distinct (decrypt k c)"
  "steps keeps_distinct (files_set i self)"
  "steps keeps_distinct (files_del i)"
  by (auto simp: steps_def keeps_distinct_def perform_def generate_sym_key_def self_get_def
      self_upd_def new_file_def decrypt_def return_def raise_def files_set_def files_del_def
      dict_set_distinct dict_del_distinct split: prod.splits sealed.splits)

lemma keeps_distinct_effects:
  "steps keeps_distinct (eVlobCreate E eb)"
  "steps keeps_distinct (eVlobList E)"
  "steps keeps_distinct (eVlobRead E i r v)"
  "steps keeps_distinct (eVlobUpdate E i r n eb)"
  "steps keeps_distinct (eVlobDelete E i)"
  "steps keeps_distinct (eVlobSynchronize E i)"
  "steps keeps_distinct (eBlockCreate E c)"
  "steps keeps_distinct (eBlockSynchronize E b)"
  "steps keeps_distinct (eBlockRead E b)"
  "steps keeps_distinct (eBlockDelete E b)"
  unfolding eVlobCreate_def eVlobList_def eVlobRead_def eVlobUpdate_def eVlobDelete_def
    eVlobSynchronize_def eBlockCreate_def eBlockSynchronize_def eBlockRead_def eBlockDelete_def
  by (auto intro!: steps_intros keeps_distinct_rt keeps_distinct_prims split: response.splits)

lemmas keeps_distinct_basic =
  steps_intros keeps_distinct_rt keeps_distinct_prims keeps_distinct_effects

lemma keeps_distinct_find_matching_blocks:
  "steps keeps_distinct (find_matching_blocks E self size_opt offset)"
  unfolding find_matching_blocks_def match_group_def match_block_def Let_def
  by (intro keeps_distinct_basic conjI impI allI)

lemma keeps_distinct_get_blocks: "steps keeps_distinct (get_blocks E self)"
  unfolding get_blocks_def
  by (intro keeps_distinct_basic keeps_distinct_find_matching_blocks)

lemma keeps_distinct_build_file_blocks: "steps keeps_distinct (build_file_blocks E self data)"
  unfolding build_file_blocks_def build_block_def
  by (intro keeps_distinct_basic)

lemma keeps_distinct_flush: "steps keeps_distinct (flush E self)"
  unfolding flush_def flush_truncate_def flush_region_def clean_block_def set_dirty_def Let_def
  by (auto intro!: keeps_distinct_basic keeps_distinct_find_matching_blocks
      keeps_distinct_get_blocks keeps_distinct_build_file_blocks split: option.splits)

lemma keeps_distinct_file_read: "steps keeps_distinct (file_read E self size_opt offset)"
  unfolding file_read_def read_group_def read_block_def
  by (intro keeps_distinct_basic keeps_distinct_find_matching_blocks keeps_distinct_flush)

lemma keeps_distinct_stat: "steps keeps_distinct (stat E self)"
  unfolding stat_def Let_def
  by (intro keeps_distinct_basic)

lemma keeps_distinct_commit: "steps keeps_distinct (commit E self)"
  unfolding commit_def set_dirty_def set_access_def
  by (auto intro!: keeps_distinct_basic keeps_distinct_get_blocks keeps_distinct_flush
      split: sync_result.splits)

lemma keeps_distinct_discard: "steps keeps_distinct (discard E self)"
  unfolding discard_def discard_block_def set_dirty_def
  by (intro keeps_distinct_basic keeps_distinct_get_blocks)

lemma keeps_distinct_restore: "steps keeps_distinct (restore E self version_opt)"
  unfolding restore_def set_dirty_def Let_def
  by (intro keeps_distinct_basic keeps_distinct_discard)

lemma keeps_distinct_reencrypt: "steps keeps_distinct (reencrypt E self)"
  unfolding reencrypt_def set_dirty_def set_access_def
  by (intro keeps_distinct_basic keeps_distinct_flush)

lemma keeps_distinct_create: "steps keeps_distinct (create E)"
  unfolding create_def set_access_def
  by (intro keeps_distinct_basic keeps_distinct_build_file_blocks)

lemma keeps_distinct_load: "steps keeps_distinct (load E i k rts wts version)"
proof -
  have "steps keeps_distinct
     (seq new_file (\<lambda>self.
          seq (self_upd self (\<lambda>f. f\<lparr>f_id := i, f_read_trust_seed := rts,
                                   f_write_trust_seed := wts,
                                   f_encryptor := k\<rparr>)) (\<lambda>u.
          seq (eVlobRead E i rts version) (\<lambda>vlob.
          seq (self_upd self (\<lambda>f. f\<lparr>f_version := snd (snd vlob), f_dirty := False\<rparr>)) (\<lambda>u.
          seq (eVlobList E) (\<lambda>vlob_list.
          seq (if fst vlob \<in> set vlob_list
               then self_upd self (\<lambda>f. f\<lparr>f_dirty := True, f_version := f_version f - 1\<rparr>)
               else return ()) (\<lambda>u.
          seq (self_upd self (\<lambda>f. f\<lparr>f_modifications := []\<rparr>)) (\<lambda>u.
          seq (self_get self) (\<lambda>f.
          seq (files_set (f_id f) self) (\<lambda>u.
          return self))))))))))"
    by (intro keeps_distinct_basic)
  then show ?thesis
    by (auto simp: steps_def load_def return_def keeps_distinct_def split: option.splits)
qed

lemma keeps_distinct_run:
  "steps keeps_distinct m \<Longrightarrow> distinct (dict_keys (w_files w))
   \<Longrightarrow> distinct (dict_keys (w_files (run m w)))"
  by (simp add: steps_def keeps_distinct_def run_def)

lemma keeps_distinct_apply_op:
  "distinct (dict_keys (w_files w)) \<Longrightarrow> distinct (dict_keys (w_files (apply_op E w op)))"
  by (cases op)
     (simp_all add: keeps_distinct_run keeps_distinct_create keeps_distinct_load
        keeps_distinct_file_read keeps_distinct_stat keeps_distinct_flush keeps_distinct_commit
        keeps_distinct_discard keeps_distinct_restore keeps_distinct_reencrypt
        keeps_distinct_prims file_write_def file_truncate_def)

lemma keeps_distinct_ops:
  "distinct (dict_keys (w_files w))
   \<Longrightarrow> distinct (dict_keys (w_files (foldl (apply_op E) w ops)))"
  by (induction ops arbitrary: w) (simp_all add: keeps_distinct_apply_op)

lemma load_registered:
  "map_of (w_files w) i = Some existing
   \<Longrightarrow> load E i k rts wts version w = (Inr existing, w)"
  by (simp add: load_def return_def)

text \<open>
  C6. After any sequence of calls of the methods of \<open>File\<close>, whatever the dispatcher
  answers and whether or not a call raises, no id occurs twice among the keys of
  \<open>File.files\<close>; and \<open>load\<close> with an id that is registered returns the registered handle
  and changes nothing: no request, no new object.
\<close>

theorem registry_one_handle_per_id:
  "distinct (dict_keys (w_files (foldl (apply_op E) (init_world b) ops)))
   \<and> (map_of (w_files w) i = Some existing
        \<longrightarrow> load E i k rts wts version w = (Inr existing, w))"
  using keeps_distinct_ops [of "init_world b" E ops]
  by (simp add: load_registered init_world_def dict_keys_def)

text \<open>After \<open>create()\<close>, loading the id of the new file, with any key and seeds.\<close>

theorem registry_one_handle_per_id_witness:
  "foldl (apply_op spec_env) (init_world store_init) [Create] = created_world
   \<and> distinct (dict_keys (w_files created_world))
   \<and> map_of (w_files created_world) 1 = Some 0
   \<and> load spec_env 1 9 8 7 None created_world = (Inr 0, created_world)"
proof -
  have r: "foldl (apply_op spec_env) (init_world store_init) [Create] = created_world"
    by (simp add: run_def create_spec)
  have m: "map_of (w_files created_world) 1 = Some 0"
    by (simp add: created_world_def)
  from registry_one_handle_per_id [of spec_env store_init "[Create]" created_world 1 0 9 8 7 None]
    r m show ?thesis by simp
qed

section \<open>Results for what \<open>restore\<close> does\<close>

lemma seq_InrE:
  assumes "seq m f w = (Inr y, w')"
  obtains x w1 where "m w = (Inr x, w1)" and "f x w1 = (Inr y, w')"
proof (cases "m w")
  case (Pair r w1)
  with assms that show ?thesis
    by (cases r) (simp_all add: seq_def)
qed

lemma reads_only_refl: "reflp reads_only"
  by (simp add: reads_only_def reflp_def)

lemma reads_only_trans: "transp reads_only"
proof (rule transpI)
  fix w w' w'' :: "'a world"
  assume a: "reads_only w w'" and b: "reads_only w' w''"
  from a obtain r1 where r1: "w_trace w' = w_trace w @ r1" "list_all is_read r1"
    by (auto simp: reads_only_def)
  from b obtain r2 where r2: "w_trace w'' = w_trace w' @ r2" "list_all is_read r2"
    by (auto simp: reads_only_def)
  from r1 r2 have "w_trace w'' = w_trace w @ (r1 @ r2)" "list_all is_read (r1 @ r2)"
    by simp_all
  then have "\<exists>reads. w_trace w'' = w_trace w @ reads \<and> list_all is_read reads"
    by blast
  moreover from a b have "w_heap w'' = w_heap w" "w_files w'' = w_files w"
    by (simp_all add: reads_only_def)
  ultimately show "reads_only w w''"
    by (simp add: reads_only_def)
qed

lemmas reads_only_rt = reads_only_refl reads_only_trans

lemma reads_only_perform: "is_read eff \<Longrightarrow> steps reads_only (perform E eff)"
  by (simp add: steps_def reads_only_def perform_world)

lemma reads_only_prims:
  "steps reads_only (self_get self)"
  "steps reads_only (decrypt k c)"
  by (auto simp: steps_def reads_only_def self_get_def decrypt_def return_def raise_def
      split: sealed.splits)

lemma reads_only_effects:
  "steps reads_only (eVlobRead E i r v)"
  "steps reads_only (eBlockRead E b)"
  unfolding eVlobRead_def eBlockRead_def
  by (auto intro!: steps_intros reads_only_rt reads_only_perform split: response.splits)

lemma reads_only_find_matching_blocks:
  "steps reads_only (find_matching_blocks E self size_opt offset)"
  unfolding find_matching_blocks_def match_group_def match_block_def Let_def
  by (intro steps_intros reads_only_rt reads_only_prims reads_only_effects conjI impI allI)

lemma reads_only_get_blocks: "steps reads_only (get_blocks E self)"
  unfolding get_blocks_def
  by (intro steps_intros reads_only_rt reads_only_find_matching_blocks)

lemma discard_block_world:
  "snd (discard_block E a b w) = snd (perform E (EBlockDelete b) w)"
  by (simp add: discard_block_def try_except_def eBlockDelete_def seq_def return_def
      split: prod.splits sum.splits)

lemma discard_blocks_loop:
  assumes "for_each (discard_block E) a ids w = (Inr r, w')"
  shows "w_trace w' = w_trace w @ map EBlockDelete ids \<and> w_heap w' = w_heap w
         \<and> w_files w' = w_files w"
  using assms
proof (induction ids arbitrary: a w)
  case Nil
  then show ?case by (simp add: return_def)
next
  case (Cons b ids)
  from Cons.prems obtain a' w1 where s: "discard_block E a b w = (Inr a', w1)"
    and rest: "for_each (discard_block E) a' ids w1 = (Inr r, w')"
    by (auto elim: seq_InrE)
  have "w1 = snd (perform E (EBlockDelete b) w)"
    using discard_block_world [of E a b w] s by simp
  then have "w_trace w1 = w_trace w @ [EBlockDelete b]" "w_heap w1 = w_heap w"
    "w_files w1 = w_files w"
    by (simp_all add: perform_world)
  with Cons.IH [OF rest] show ?case by simp
qed

lemma vlob_delete_world:
  "snd (try_except (seq (eVlobDelete E i) (\<lambda>u. return a)) VlobNotFound (return True) w)
     = snd (perform E (EVlobDelete i) w)"
  by (simp add: try_except_def eVlobDelete_def seq_def return_def
      split: prod.splits sum.splits)


lemma discard_returns:
  assumes "discard E self w = (Inr r, w1)"
  shows "\<exists>ids reads.
           fst (get_blocks E self (snd (self_upd self (\<lambda>f. f\<lparr>f_modifications := []\<rparr>) w)))
             = Inr ids
           \<and> list_all is_read reads
           \<and> w_trace w1 = w_trace w @ reads @ map EBlockDelete ids
                             @ [EVlobDelete (f_id (w_heap w self))]
           \<and> w_heap w1 =
               (w_heap w)(self := (w_heap w self)\<lparr>f_modifications := [], f_dirty := False\<rparr>)
           \<and> w_files w1 = w_files w"
proof -
  define wc where "wc = snd (self_upd self (\<lambda>f. f\<lparr>f_modifications := []\<rparr>) w)"
  have wc: "w_trace wc = w_trace w" "w_files wc = w_files w"
    "w_heap wc = (w_heap w)(self := (w_heap w self)\<lparr>f_modifications := []\<rparr>)"
    by (simp_all add: wc_def self_upd_def)
  from assms obtain u wc' where "self_upd self (\<lambda>f. f\<lparr>f_modifications := []\<rparr>) w = (Inr u, wc')"
    and 1: "seq (get_blocks E self) (\<lambda>block_ids.
              seq (for_each (discard_block E) False block_ids) (\<lambda>already_synchronized.
              seq (self_get self) (\<lambda>f.
              seq (try_except (seq (eVlobDelete E (f_id f)) (\<lambda>u. return already_synchronized))
                     VlobNotFound (return True)) (\<lambda>already_synchronized.
              seq (set_dirty self False) (\<lambda>u.
              return (\<not> already_synchronized)))))) wc' = (Inr r, w1)"
    unfolding discard_def by (rule seq_InrE)
  then have "wc' = wc" by (simp add: wc_def)
  from 1 [unfolded this] obtain ids wg where g: "get_blocks E self wc = (Inr ids, wg)"
    and 2: "seq (for_each (discard_block E) False ids) (\<lambda>already_synchronized.
              seq (self_get self) (\<lambda>f.
              seq (try_except (seq (eVlobDelete E (f_id f)) (\<lambda>u. return already_synchronized))
                     VlobNotFound (return True)) (\<lambda>already_synchronized.
              seq (set_dirty self False) (\<lambda>u.
              return (\<not> already_synchronized))))) wg = (Inr r, w1)"
    by (rule seq_InrE)
  have "reads_only wc wg"
    using reads_only_get_blocks [of E self] g by (auto simp: steps_def dest: spec [of _ wc])
  then obtain reads where wg: "w_trace wg = w_trace wc @ reads" "list_all is_read reads"
    "w_heap wg = w_heap wc" "w_files wg = w_files wc"
    by (auto simp: reads_only_def)
  from 2 obtain a wl where l: "for_each (discard_block E) False ids wg = (Inr a, wl)"
    and 3: "seq (self_get self) (\<lambda>f.
              seq (try_except (seq (eVlobDelete E (f_id f)) (\<lambda>u. return a))
                     VlobNotFound (return True)) (\<lambda>already_synchronized.
              seq (set_dirty self False) (\<lambda>u.
              return (\<not> already_synchronized)))) wl = (Inr r, w1)"
    by (rule seq_InrE)
  from discard_blocks_loop [OF l]
  have wl: "w_trace wl = w_trace wg @ map EBlockDelete ids" "w_heap wl = w_heap wg"
    "w_files wl = w_files wg"
    by simp_all
  define i where "i = f_id (w_heap wl self)"
  have i: "i = f_id (w_heap w self)"
    by (simp add: i_def wl wg wc)
  from 3 have 4: "seq (try_except (seq (eVlobDelete E i) (\<lambda>u. return a))
                     VlobNotFound (return True)) (\<lambda>already_synchronized.
              seq (set_dirty self False) (\<lambda>u.
              return (\<not> already_synchronized))) wl = (Inr r, w1)"
    by (simp add: seq_def [of "self_get self"] self_get_def i_def)
  from 4 obtain a' wv where
    v: "try_except (seq (eVlobDelete E i) (\<lambda>u. return a)) VlobNotFound (return True) wl
          = (Inr a', wv)"
    and 5: "seq (set_dirty self False) (\<lambda>u. return (\<not> a')) wv = (Inr r, w1)"
    by (rule seq_InrE)
  have "wv = snd (perform E (EVlobDelete i) wl)"
    using vlob_delete_world [of E i a wl] v by simp
  then have wv: "w_trace wv = w_trace wl @ [EVlobDelete i]" "w_heap wv = w_heap wl"
    "w_files wv = w_files wl"
    by (simp_all add: perform_world)
  from 5 have "w1 = snd (set_dirty self False wv)"
    by (auto simp: seq_def set_dirty_def self_upd_def return_def)
  then have w1: "w_trace w1 = w_trace wv" "w_files w1 = w_files wv"
    "w_heap w1 = (w_heap wv)(self := (w_heap wv self)\<lparr>f_dirty := False\<rparr>)"
    by (simp_all add: set_dirty_def self_upd_def)
  have "fst (get_blocks E self wc) = Inr ids"
    using g by simp
  moreover have "w_trace w1 = w_trace w @ reads @ map EBlockDelete ids @ [EVlobDelete (f_id (w_heap w self))]"
    by (simp add: w1 wv wl wg wc i)
  moreover have "w_heap w1 = (w_heap w)(self := (w_heap w self)\<lparr>f_modifications := [], f_dirty := False\<rparr>)"
    by (simp add: w1 wv wl wg wc)
  moreover have "w_files w1 = w_files w"
    by (simp add: w1 wv wl wg wc)
  ultimately show ?thesis
    using wg(2) unfolding wc_def by blast
qed

lemma discard_raises:
  assumes "\<not> (restore_target (w_heap w self) version_opt < 1
              \<or> get_version (w_heap w self) \<le> restore_target (w_heap w self) version_opt)"
    and "fst (discard E self w) = Inl e"
  shows "restore E self version_opt w = (Inl e, snd (discard E self w))"
proof -
  obtain r w1 where d: "discard E self w = (r, w1)"
    by (cases "discard E self w")
  with assms(2) have r: "r = Inl e" by simp
  from assms(1) d show ?thesis
    unfolding r
    by (simp add: restore_def seq_def [of "self_get self"] seq_def [of "discard E self"]
        self_get_def Let_def restore_target_def)
qed

lemma restore_after_discard:
  assumes range: "\<not> (restore_target (w_heap w self) version_opt < 1
              \<or> get_version (w_heap w self) \<le> restore_target (w_heap w self) version_opt)"
    and d: "discard E self w = (Inr d, w1)"
    and id: "f_id (w_heap w1 self) = i" "f_read_trust_seed (w_heap w1 self) = rts"
      "f_write_trust_seed (w_heap w1 self) = wts" "f_version (w_heap w1 self) = n"
    and v: "restore_target (w_heap w self) version_opt = version"
  shows "restore E self version_opt w =
           seq (eVlobRead E i rts (Some version)) (\<lambda>vlob.
           seq (eVlobUpdate E i wts (n + 1) (fst (snd vlob))) (\<lambda>u.
           set_dirty self True)) w1"
  using range d id v
  by (simp add: restore_def seq_def [of "self_get self"] seq_def [of "discard E self"]
      self_get_def Let_def restore_target_def)

lemma read_update_run:
  fixes E :: "'b env" and self :: href and i :: vlob_id and rts wts :: seed and n :: int
    and version :: "int option"
  defines "m \<equiv> seq (eVlobRead E i rts version) (\<lambda>vlob.
                 seq (eVlobUpdate E i wts n (fst (snd vlob))) (\<lambda>u.
                 set_dirty self True))"
  assumes a: "env_dispatch E (EVlobRead i rts version) (w_backend w1) = (a, b2)"
  shows "w_trace (snd (m w1)) =
           w_trace w1 @ [EVlobRead i rts version] @
           (case a of Inr (RVlob i' blob n') \<Rightarrow> [EVlobUpdate i wts n blob] | _ \<Rightarrow> [])"
    and "fst (m w1) =
           (case a of
              Inl e \<Rightarrow> Inl (Backend e)
            | Inr (RVlob i' blob n') \<Rightarrow>
                (case fst (env_dispatch E (EVlobUpdate i wts n blob) b2) of
                   Inl e \<Rightarrow> Inl (Backend e)
                 | Inr r \<Rightarrow> Inr ())
            | Inr _ \<Rightarrow> Inl TypeError)"
    and "w_heap (snd (m w1)) =
           (if fst (m w1) = Inr () then (w_heap w1)(self := (w_heap w1 self)\<lparr>f_dirty := True\<rparr>)
            else w_heap w1)"
    and "w_files (snd (m w1)) = w_files w1"
  using a unfolding m_def
  by (auto simp: eVlobRead_def eVlobUpdate_def perform_def seq_def return_def raise_def
      set_dirty_def self_upd_def split: sum.splits response.splits prod.splits)


text \<open>
  C3, amended. For every call of \<open>restore(version)\<close> with a version in range (by default
  the one before the current one), whatever the dispatcher answers: \<open>restore\<close> runs
  \<open>discard()\<close>, not \<open>flush()\<close>, and when \<open>discard\<close> raises, \<open>restore\<close> raises the same
  and stops there. Otherwise it has dropped the pending modifications without applying
  them, read the current layout, issued \<open>EBlockDelete\<close> for every block of the current
  version, in order, and \<open>EVlobDelete\<close> for the vlob; it then reads the version asked for,
  and when that read is answered with a blob it issues \<open>EVlobUpdate\<close> at
  \<open>self.version + 1\<close> with that very blob, and nothing else. It returns exactly when the
  read and the update are both answered; the handle is then dirty, its queue is empty in
  either case, and the registry is untouched.
\<close>

theorem restore_discards:
  assumes "1 \<le> restore_target (w_heap w self) version_opt"
    and "restore_target (w_heap w self) version_opt < get_version (w_heap w self)"
  shows
    "case fst (discard E self w) of
       Inl e \<Rightarrow> restore E self version_opt w = (Inl e, snd (discard E self w))
     | Inr d \<Rightarrow>
         (\<exists>ids reads.
            fst (get_blocks E self (snd (self_upd self (\<lambda>f. f\<lparr>f_modifications := []\<rparr>) w)))
              = Inr ids
            \<and> list_all is_read reads
            \<and> new_effects w (snd (restore E self version_opt w)) =
                reads @ map EBlockDelete ids @
                [EVlobDelete (f_id (w_heap w self)),
                 EVlobRead (f_id (w_heap w self)) (f_read_trust_seed (w_heap w self))
                   (Some (restore_target (w_heap w self) version_opt))] @
                (case fst (historical_read E self version_opt w) of
                   Inr (RVlob i blob n) \<Rightarrow>
                     [EVlobUpdate (f_id (w_heap w self)) (f_write_trust_seed (w_heap w self))
                        (f_version (w_heap w self) + 1) blob]
                 | _ \<Rightarrow> [])
            \<and> fst (restore E self version_opt w) =
                (case fst (historical_read E self version_opt w) of
                   Inl e \<Rightarrow> Inl (Backend e)
                 | Inr (RVlob i blob n) \<Rightarrow>
                     (case fst (env_dispatch E
                                  (EVlobUpdate (f_id (w_heap w self))
                                     (f_write_trust_seed (w_heap w self))
                                     (f_version (w_heap w self) + 1) blob)
                                  (snd (historical_read E self version_opt w))) of
                        Inl e \<Rightarrow> Inl (Backend e)
                      | Inr r \<Rightarrow> Inr ())
                 | Inr _ \<Rightarrow> Inl TypeError)
            \<and> w_heap (snd (restore E self version_opt w)) =
                (w_heap w)(self := (w_heap w self)
                   \<lparr>f_modifications := [],
                    f_dirty := (fst (restore E self version_opt w) = Inr ())\<rparr>)
            \<and> w_files (snd (restore E self version_opt w)) = w_files w)"
proof (cases "fst (discard E self w)")
  case (Inl e)
  from assms have "\<not> (restore_target (w_heap w self) version_opt < 1
              \<or> get_version (w_heap w self) \<le> restore_target (w_heap w self) version_opt)"
    by simp
  from discard_raises [OF this Inl] Inl show ?thesis by simp
next
  case (Inr d)
  define f0 where "f0 = w_heap w self"
  define version where "version = restore_target f0 version_opt"
  define w1 where "w1 = snd (discard E self w)"
  have d: "discard E self w = (Inr d, w1)"
    using Inr by (simp add: w1_def prod_eq_iff)
  from discard_returns [OF d] obtain ids reads where
    ids: "fst (get_blocks E self (snd (self_upd self (\<lambda>f. f\<lparr>f_modifications := []\<rparr>) w)))
            = Inr ids"
    and reads: "list_all is_read reads"
    and t1: "w_trace w1 = w_trace w @ reads @ map EBlockDelete ids @ [EVlobDelete (f_id f0)]"
    and h1: "w_heap w1 = (w_heap w)(self := f0\<lparr>f_modifications := [], f_dirty := False\<rparr>)"
    and g1: "w_files w1 = w_files w"
    unfolding f0_def by blast
  have range: "\<not> (restore_target (w_heap w self) version_opt < 1
              \<or> get_version (w_heap w self) \<le> restore_target (w_heap w self) version_opt)"
    using assms by simp
  define m where "m = seq (eVlobRead E (f_id f0) (f_read_trust_seed f0) (Some version)) (\<lambda>vlob.
           seq (eVlobUpdate E (f_id f0) (f_write_trust_seed f0) (f_version f0 + 1)
                  (fst (snd vlob))) (\<lambda>u.
           set_dirty self True))"
  have r: "restore E self version_opt w = m w1"
    unfolding m_def
    by (rule restore_after_discard [OF range d])
       (simp_all add: h1 version_def f0_def)
  obtain a b2 where a:
    "env_dispatch E (EVlobRead (f_id f0) (f_read_trust_seed f0) (Some version)) (w_backend w1)
       = (a, b2)"
    by (cases "env_dispatch E (EVlobRead (f_id f0) (f_read_trust_seed f0) (Some version))
                 (w_backend w1)")
  have hr: "historical_read E self version_opt w = (a, b2)"
    using a by (simp add: historical_read_def w1_def f0_def version_def)
  note run = read_update_run [OF a, of "f_write_trust_seed f0" "f_version f0 + 1" self,
      folded m_def]
  have e: "new_effects w (snd (restore E self version_opt w)) =
             reads @ map EBlockDelete ids @
             [EVlobDelete (f_id f0), EVlobRead (f_id f0) (f_read_trust_seed f0) (Some version)] @
             (case a of
                Inr (RVlob i blob n) \<Rightarrow>
                  [EVlobUpdate (f_id f0) (f_write_trust_seed f0) (f_version f0 + 1) blob]
              | _ \<Rightarrow> [])"
    by (simp add: new_effects_def r run(1) t1)
  have o: "fst (restore E self version_opt w) =
             (case a of
                Inl e \<Rightarrow> Inl (Backend e)
              | Inr (RVlob i blob n) \<Rightarrow>
                  (case fst (env_dispatch E
                               (EVlobUpdate (f_id f0) (f_write_trust_seed f0)
                                  (f_version f0 + 1) blob) b2) of
                     Inl e \<Rightarrow> Inl (Backend e)
                   | Inr r \<Rightarrow> Inr ())
              | Inr _ \<Rightarrow> Inl TypeError)"
    by (simp add: r run(2))
  have h: "w_heap (snd (restore E self version_opt w)) =
             (w_heap w)(self := f0\<lparr>f_modifications := [],
                                   f_dirty := (fst (restore E self version_opt w) = Inr ())\<rparr>)"
    by (simp add: r run(3) h1)
  have g: "w_files (snd (restore E self version_opt w)) = w_files w"
    by (simp add: r run(4) g1)
  from ids reads e o h g show ?thesis
    unfolding Inr hr f0_def version_def
    by (simp only: sum.case fst_conv snd_conv) blast
qed


lemmas scripted_defs = scripted_world_def scripted_env_def scripted_dispatch_def blank_file_def

text \<open>
  On the store of the specification, where the read after the deletion finds no vlob, and
  with a dispatcher that still answers it, as one deleting only what is staged locally
  would.
\<close>

theorem restore_discards_witness:
  "fst (discard spec_env 0 edited_world) = Inr True
   \<and> fst (historical_read spec_env 0 (Some 1) edited_world) = Inl VlobNotFound
   \<and> new_effects edited_world (snd (restore spec_env 0 (Some 1) edited_world)) =
       [EVlobRead 1 2 (Some 2), EBlockDelete 0, EBlockDelete 4, EVlobDelete 1,
        EVlobRead 1 2 (Some 1)]
   \<and> fst (restore spec_env 0 (Some 1) edited_world) = Inl (Backend VlobNotFound)
   \<and> f_modifications (w_heap (snd (restore spec_env 0 (Some 1) edited_world)) 0) = []
   \<and> fst (discard scripted_env 0 scripted_world) = Inr True
   \<and> fst (historical_read scripted_env 0 (Some 1) scripted_world) =
       Inr (RVlob 1 (Sealed 1 [BlockGroup [BlockMeta 4 ''hello'' 5] 1]) 1)
   \<and> new_effects scripted_world (snd (restore scripted_env 0 (Some 1) scripted_world)) =
       [EVlobRead 1 2 (Some 2), EBlockDelete 5, EVlobDelete 1, EVlobRead 1 2 (Some 1),
        EVlobUpdate 1 3 2 (Sealed 1 [BlockGroup [BlockMeta 4 ''hello'' 5] 1])]
   \<and> fst (restore scripted_env 0 (Some 1) scripted_world) = Inr ()
   \<and> f_modifications (w_heap (snd (restore scripted_env 0 (Some 1) scripted_world)) 0) = []
   \<and> f_dirty (w_heap (snd (restore scripted_env 0 (Some 1) scripted_world)) 0)"
proof -
  have range1: "1 \<le> restore_target (w_heap edited_world 0) (Some 1)"
    "restore_target (w_heap edited_world 0) (Some 1) < get_version (w_heap edited_world 0)"
    by (simp_all add: restore_target_def get_version_def edited_world_def)
  have range2: "1 \<le> restore_target (w_heap scripted_world 0) (Some 1)"
    "restore_target (w_heap scripted_world 0) (Some 1) < get_version (w_heap scripted_world 0)"
    by (simp_all add: restore_target_def get_version_def scripted_world_def)
  have d1: "fst (discard spec_env 0 edited_world) = Inr True"
    by (simp add: edited_world_def prog_defs engine_defs value_defs spec_defs)
  have d2: "fst (discard scripted_env 0 scripted_world) = Inr True"
    by (simp add: prog_defs engine_defs value_defs scripted_defs)
  have a1: "fst (historical_read spec_env 0 (Some 1) edited_world) = Inl VlobNotFound"
    by (simp add: historical_read_def restore_target_def edited_world_def prog_defs engine_defs
        value_defs spec_defs)
  have a2: "historical_read scripted_env 0 (Some 1) scripted_world =
              (Inr (RVlob 1 (Sealed 1 [BlockGroup [BlockMeta 4 ''hello'' 5] 1]) 1), [Inr RNone])"
    by (simp add: historical_read_def restore_target_def prog_defs engine_defs value_defs
        scripted_defs)
  from restore_discards [OF range1, of spec_env] obtain ids1 reads1 where
    o1: "fst (restore spec_env 0 (Some 1) edited_world) = Inl (Backend VlobNotFound)"
    and h1: "w_heap (snd (restore spec_env 0 (Some 1) edited_world)) =
               (w_heap edited_world)(0 := (w_heap edited_world 0)
                  \<lparr>f_modifications := [],
                   f_dirty := (fst (restore spec_env 0 (Some 1) edited_world) = Inr ())\<rparr>)"
    unfolding d1 a1 by auto
  have n1: "new_effects edited_world (snd (restore spec_env 0 (Some 1) edited_world)) =
       [EVlobRead 1 2 (Some 2), EBlockDelete 0, EBlockDelete 4, EVlobDelete 1,
        EVlobRead 1 2 (Some 1)]"
    by (simp add: edited_world_def new_effects_def prog_defs engine_defs value_defs spec_defs)
  from restore_discards [OF range2, of scripted_env] obtain ids2 reads2 where
    o2: "fst (restore scripted_env 0 (Some 1) scripted_world) = Inr ()"
    and h2: "w_heap (snd (restore scripted_env 0 (Some 1) scripted_world)) =
               (w_heap scripted_world)(0 := (w_heap scripted_world 0)
                  \<lparr>f_modifications := [],
                   f_dirty := (fst (restore scripted_env 0 (Some 1) scripted_world) = Inr ())\<rparr>)"
    unfolding d2 a2 by (auto simp: scripted_env_def scripted_dispatch_def)
  have n2: "new_effects scripted_world (snd (restore scripted_env 0 (Some 1) scripted_world)) =
       [EVlobRead 1 2 (Some 2), EBlockDelete 5, EVlobDelete 1, EVlobRead 1 2 (Some 1),
        EVlobUpdate 1 3 2 (Sealed 1 [BlockGroup [BlockMeta 4 ''hello'' 5] 1])]"
    by (simp add: new_effects_def prog_defs engine_defs value_defs scripted_defs)
  from d1 a1 n1 o1 h1 d2 a2 n2 o2 h2 show ?thesis
    by simp
qed

text \<open>
  C3, as stated: on the store of the specification, create, commit, write, flush and a
  pending write, then \<open>restore(1)\<close> with \<open>get_version() = 2\<close>. No block is created for the
  pending write, both blocks of the file and the vlob are deleted, and the store has lost
  block 4 and the vlob.
\<close>

theorem restore_deletes_counterexample:
  "foldl (apply_op spec_env) (init_world store_init)
     [Create, Commit 0, FileWrite 0 ''HELLO'' 0, Flush 0, FileWrite 0 ''x'' 0] = edited_world
   \<and> get_version (w_heap edited_world 0) = 2
   \<and> f_modifications (w_heap edited_world 0) = [Write ''x'' 0]
   \<and> new_effects edited_world (snd (restore spec_env 0 (Some 1) edited_world)) =
       [EVlobRead 1 2 (Some 2), EBlockDelete 0, EBlockDelete 4, EVlobDelete 1,
        EVlobRead 1 2 (Some 1)]
   \<and> st_blocks (w_backend (snd (restore spec_env 0 (Some 1) edited_world))) 4 = None
   \<and> st_vlobs (w_backend (snd (restore spec_env 0 (Some 1) edited_world))) 1 = None"
  by (simp add: edited_world_reached)
     (simp add: edited_world_def new_effects_def prog_defs engine_defs value_defs spec_defs)

section \<open>Results for the symmetric keys\<close>

lemma length_urandom: "length (urandom n ent) = nat n"
  by (simp add: urandom_def)

lemma iv_tag_slices:
  assumes "length iv = 16" and "length tag = 16"
  shows "slice_to (iv @ enc @ tag) 16 = iv"
    and "slice_from (iv @ enc @ tag) (- 16) = tag"
    and "slice (iv @ enc @ tag) 16 (- 16) = enc"
  using assms by (simp_all add: slice_to_def slice_from_def slice_def slice_bound_def)

lemma AESKey_roundtrip:
  assumes "gcm_contract G"
  shows "AESKey_decrypt G key (AESKey_encrypt G key ent cleartext) = Inr cleartext"
proof -
  let ?iv = "urandom 16 ent"
  let ?enc = "fst (gcm_encrypt G key ?iv cleartext)"
  let ?tag = "snd (gcm_encrypt G key ?iv cleartext)"
  have l: "length ?iv = 16" "length ?tag = 16"
    using assms by (simp_all add: length_urandom gcm_contract_def)
  have d: "gcm_decrypt G key ?iv ?tag ?enc = Some cleartext"
    using assms by (simp add: gcm_contract_def)
  have e: "AESKey_encrypt G key ent cleartext = ?iv @ ?enc @ ?tag"
    by (simp add: AESKey_encrypt_def AES_block_size_def Let_def)
  show ?thesis
    unfolding e AESKey_decrypt_def
    by (simp add: AES_block_size_def iv_tag_slices [OF l] d)
qed

lemma urandom_ent_a: "urandom n ent_a = replicate (nat n) (CHR ''a'')"
  by (simp add: urandom_def ent_a_def map_replicate_const)

lemma urandom_ent_b: "urandom n ent_b = replicate (nat n) (CHR ''b'')"
  by (simp add: urandom_def ent_b_def map_replicate_const)

lemma toy_gcm_contract: "gcm_contract toy_gcm"
  by (auto simp: gcm_contract_def toy_gcm_def toy_tag_def)

text \<open>
  C5, as stated, at a key of 32 bytes, the cleartext \<open>hello\<close> and an entropy source that gives
  only \<open>a\<close>: the first 16 bytes of the ciphertext are the random bytes drawn for the IV,
  and the ciphertext has 16 + 5 + 16 bytes, not the 12 + 5 + 16 of a 12-byte IV.
\<close>

theorem AESKey_encrypt_iv_counterexample:
  "take 16 (AESKey_encrypt toy_gcm key_k ent_a ''hello'') = replicate 16 (CHR ''a'')
   \<and> length (AESKey_encrypt toy_gcm key_k ent_a ''hello'') = 16 + 5 + 16
   \<and> length (AESKey_encrypt toy_gcm key_k ent_a ''hello'') \<noteq> 12 + 5 + 16"
  by (simp add: AESKey_encrypt_def AES_block_size_def urandom_ent_a toy_gcm_def toy_tag_def
      Let_def)

text \<open>
  C5, amended. For every cipher that meets the contract, \<open>encrypt\<close> returns a random IV of
  16 bytes (\<open>AES.block_size // 8\<close>), then the GCM ciphertext, then the 16-byte tag; and
  \<open>decrypt\<close>, which takes the first 16 bytes as the IV and the last 16 as the tag, gives
  the cleartext back.
\<close>

theorem AESKey_encrypt_layout:
  assumes "gcm_contract G"
  shows "AESKey_encrypt G key ent cleartext =
           urandom 16 ent @ fst (gcm_encrypt G key (urandom 16 ent) cleartext)
             @ snd (gcm_encrypt G key (urandom 16 ent) cleartext)
         \<and> length (urandom 16 ent) = 16
         \<and> length (snd (gcm_encrypt G key (urandom 16 ent) cleartext)) = 16
         \<and> AESKey_decrypt G key (AESKey_encrypt G key ent cleartext) = Inr cleartext"
  using assms AESKey_roundtrip [OF assms]
  by (simp add: AESKey_encrypt_def AES_block_size_def length_urandom gcm_contract_def Let_def)

theorem AESKey_encrypt_layout_witness:
  "gcm_contract toy_gcm
   \<and> AESKey_encrypt toy_gcm key_k ent_a ''hello'' = replicate 16 (CHR ''a'') @ ''olleh'' @ replicate 16 (CHR ''a'')
   \<and> AESKey_decrypt toy_gcm key_k (AESKey_encrypt toy_gcm key_k ent_a ''hello'') = Inr ''hello''"
proof -
  note t = AESKey_encrypt_layout [OF toy_gcm_contract, of key_k ent_a "''hello''"]
  have "AESKey_encrypt toy_gcm key_k ent_a ''hello'' =
          replicate 16 (CHR ''a'') @ ''olleh'' @ replicate 16 (CHR ''a'')"
    by (subst t [THEN conjunct1]) (simp add: urandom_ent_a toy_gcm_def toy_tag_def)
  with t toy_gcm_contract show ?thesis by blast
qed

text \<open>
  C8. For every cipher that meets the contract, every key and every message \<open>m\<close>:
  decrypting an encryption of \<open>m\<close> gives \<open>m\<close>; encrypting that result again, with fresh
  randomness, and decrypting gives \<open>m\<close> too; and the two ciphertexts differ whenever the
  two IVs drawn differ.
\<close>

theorem AESKey_reencrypt_roundtrip:
  assumes "gcm_contract G"
  shows "AESKey_decrypt G key (AESKey_encrypt G key ent1 m) = Inr m
         \<and> (case AESKey_decrypt G key (AESKey_encrypt G key ent1 m) of
              Inl e \<Rightarrow> False
            | Inr m' \<Rightarrow> AESKey_decrypt G key (AESKey_encrypt G key ent2 m') = Inr m)
         \<and> (if urandom 16 ent1 = urandom 16 ent2 then True
            else AESKey_encrypt G key ent1 m \<noteq> AESKey_encrypt G key ent2 m)"
proof -
  have r: "\<And>ent x. AESKey_decrypt G key (AESKey_encrypt G key ent x) = Inr x"
    by (rule AESKey_roundtrip [OF assms])
  have "AESKey_encrypt G key ent1 m \<noteq> AESKey_encrypt G key ent2 m"
    if "urandom 16 ent1 \<noteq> urandom 16 ent2"
  proof
    assume "AESKey_encrypt G key ent1 m = AESKey_encrypt G key ent2 m"
    then have "take 16 (AESKey_encrypt G key ent1 m) = take 16 (AESKey_encrypt G key ent2 m)"
      by simp
    then have "urandom 16 ent1 = urandom 16 ent2"
      by (simp add: AESKey_encrypt_def AES_block_size_def length_urandom Let_def)
    with that show False by simp
  qed
  then show ?thesis by (simp add: r)
qed

theorem AESKey_reencrypt_roundtrip_witness:
  "gcm_contract toy_gcm
   \<and> AESKey_decrypt toy_gcm key_k (AESKey_encrypt toy_gcm key_k ent_a ''hello'') = Inr ''hello''
   \<and> AESKey_decrypt toy_gcm key_k (AESKey_encrypt toy_gcm key_k ent_b ''hello'') = Inr ''hello''
   \<and> AESKey_encrypt toy_gcm key_k ent_a ''hello'' \<noteq> AESKey_encrypt toy_gcm key_k ent_b ''hello''"
proof -
  note t = AESKey_reencrypt_roundtrip [OF toy_gcm_contract, of key_k ent_a "''hello''" ent_b]
  have ne: "urandom 16 ent_a \<noteq> urandom 16 ent_b"
    by (simp add: urandom_ent_a urandom_ent_b)
  from t ne toy_gcm_contract show ?thesis
    by (auto split: sum.splits)
qed

end
